theory Spec2Isabelle
  imports Complex_Main "HOL-Library.Sublist"
begin

section \<open>Data model (src/types.ts)\<close>

text \<open>
  JavaScript numbers are modelled as exact reals: the arithmetic of the program
  (sums, quotients, \<open>Math.min\<close>, \<open>Math.max\<close>) is read in the real field, without the
  rounding of IEEE doubles. Strings are lists of 8-bit code units. Of a step, the
  \<open>swipeConfig\<close> and \<open>targetText\<close> annotations are left out, and of an analysis result
  the fields that neither the scheduler nor the playback reads.
\<close>

record Point =
  px :: real
  py :: real

datatype StepType = TAP | SWIPE | WAIT | DRAG | HUMAN_SWIPE

record MacroStep =
  step_id :: string
  step_type :: StepType
  coordinates :: "Point option"
  endCoordinates :: "Point option"
  durationMs :: real
  description :: string

record AnalysisResult =
  title :: string
  summary :: string
  macroSequence :: "MacroStep list"
  newlyDiscoveredRules :: "string list"
  result_timestamp :: nat

record GameProfile =
  profile_id :: string
  profile_name :: string
  profile_notes :: string

record TrainingLog =
  log_id :: nat
  log_gameId :: string
  log_timestamp :: nat
  imageHash :: string
  aiPrediction :: AnalysisResult

datatype AppMode = UPLOAD | LIVE_VISION | SCREEN_SHARE

datatype Severity = WARNING | ERROR | FATAL

text \<open>
  A parsed JSON value, as \<open>JSON.parse\<close> returns it. An object is the list of its
  members, each key once.
\<close>

datatype json =
    JNull
  | JBool bool
  | JNum real
  | JStr string
  | JArr "json list"
  | JObj "(string \<times> json) list"

record ErrorLog =
  err_id :: nat
  err_timestamp :: nat
  severity :: Severity
  message :: json
  context_mode :: AppMode
  context_gameId :: string
  context_gameName :: string

section \<open>Persistent stores (src/services/storage.ts)\<close>

text \<open>
  \<open>localStorage\<close> holds, under \<open>LOGS_KEY\<close> and \<open>ERRORS_KEY\<close>, the serialised record
  lists; \<open>None\<close> is an absent key (\<open>getItem\<close> returns \<open>null\<close>).
\<close>

record Storage =
  logsStore :: "TrainingLog list option"
  errorsStore :: "ErrorLog list option"

definition stored_logs :: "Storage \<Rightarrow> TrainingLog list" where
  "stored_logs st = (case logsStore st of None \<Rightarrow> [] | Some ls \<Rightarrow> ls)"

definition stored_errors :: "Storage \<Rightarrow> ErrorLog list" where
  "stored_errors st = (case errorsStore st of None \<Rightarrow> [] | Some ls \<Rightarrow> ls)"

text \<open>\<open>logs.shift()\<close> removes the first element; on an empty array it does nothing.\<close>

definition shift :: "'a list \<Rightarrow> 'a list" where
  "shift xs = (case xs of [] \<Rightarrow> [] | _ # ys \<Rightarrow> ys)"

definition saveLog :: "TrainingLog \<Rightarrow> Storage \<Rightarrow> Storage" where
  "saveLog entry st =
     (let logs = stored_logs st;
          logs' = (if length logs > 50 then shift logs else logs)
      in st\<lparr>logsStore := Some (logs' @ [entry])\<rparr>)"

definition saveErrorLog :: "ErrorLog \<Rightarrow> Storage \<Rightarrow> Storage" where
  "saveErrorLog err st =
     (let logs = stored_errors st;
          logs' = (if length logs > 50 then shift logs else logs)
      in st\<lparr>errorsStore := Some (logs' @ [err])\<rparr>)"

definition getSystemErrorCount :: "Storage \<Rightarrow> nat" where
  "getSystemErrorCount st = (case errorsStore st of None \<Rightarrow> 0 | Some ls \<Rightarrow> length ls)"

definition clearErrorLogs :: "Storage \<Rightarrow> Storage" where
  "clearErrorLogs st = st\<lparr>errorsStore := None\<rparr>"

section \<open>Error classification (catch block of \<open>triggerAnalysis\<close>, src/types.ts)\<close>

datatype js_error = TypeError

text \<open>
  The value the analysis call rejected with. For a value that is neither a string nor
  an \<open>Error\<close>, the program only looks at what \<open>JSON.stringify\<close> makes of it: a text,
  \<open>undefined\<close> (for \<open>undefined\<close>, a function or a symbol), or an exception (a cyclic
  structure, a BigInt).
\<close>

datatype stringified = Serialized string | NotSerialized | StringifyThrows

datatype thrown =
    ThrownString string
  | ThrownError string "string option"
  | ThrownOther stringified

datatype ErrorCategory = RateLimit | Safety | Network | Other

record ErrorRecord =
  category :: ErrorCategory
  technicalMessage :: json
  friendlyMessage :: string
  backoffMs :: real

definition extractMessage :: "thrown \<Rightarrow> js_error + string option" where
  "extractMessage e =
     (case e of
        ThrownString s \<Rightarrow> Inr (Some s)
      | ThrownError m stack \<Rightarrow>
          Inr (Some (case stack of
                       None \<Rightarrow> m
                     | Some st \<Rightarrow> if st \<noteq> [] then m @ [CHR 0x0A] @ st else m))
      | ThrownOther (Serialized s) \<Rightarrow> Inr (Some s)
      | ThrownOther NotSerialized \<Rightarrow> Inr None
      | ThrownOther StringifyThrows \<Rightarrow> Inl TypeError)"

text \<open>\<open>String.prototype.trim\<close> on the code units below 256: the white space and line
  terminators of ECMAScript in that range.\<close>

definition is_space :: "char \<Rightarrow> bool" where
  "is_space c = (c \<in> {CHR 0x09, CHR 0x0A, CHR 0x0B, CHR 0x0C, CHR 0x0D, CHR 0x20, CHR 0xA0})"

definition trim :: "string \<Rightarrow> string" where
  "trim s = rev (dropWhile is_space (rev (dropWhile is_space s)))"

definition startsWith :: "string \<Rightarrow> string \<Rightarrow> bool" where
  "startsWith s p = prefix p s"

text \<open>JavaScript truthiness of a value; \<open>None\<close> is \<open>undefined\<close>.\<close>

fun truthy :: "json option \<Rightarrow> bool" where
  "truthy None = False"
| "truthy (Some JNull) = False"
| "truthy (Some (JBool b)) = b"
| "truthy (Some (JNum n)) = (n \<noteq> 0)"
| "truthy (Some (JStr s)) = (s \<noteq> [])"
| "truthy (Some (JArr xs)) = True"
| "truthy (Some (JObj kvs)) = True"

text \<open>Reading the property \<open>error\<close> or \<open>message\<close> of a value: a \<open>TypeError\<close> on
  \<open>undefined\<close> and \<open>null\<close>, the member of an object, \<open>undefined\<close> on the other values.\<close>

fun property :: "json option \<Rightarrow> string \<Rightarrow> js_error + json option" where
  "property None k = Inl TypeError"
| "property (Some JNull) k = Inl TypeError"
| "property (Some (JObj kvs)) k = Inr (map_of kvs k)"
| "property (Some v) k = Inr None"

text \<open>
  The \<open>try\<close> block that unwraps a JSON payload. \<open>parsed\<close> is what
  \<open>JSON.parse(technicalMessage)\<close> returns when it is called, \<open>None\<close> when it throws a
  \<open>SyntaxError\<close>. Every exception of the block is swallowed by its \<open>catch\<close>.
\<close>

definition unwrapJson :: "json option \<Rightarrow> string option \<Rightarrow> json option" where
  "unwrapJson parsed tm =
     (case tm of
        None \<Rightarrow> None
      | Some s \<Rightarrow>
          if startsWith (trim s) ''{'' then
            (case parsed of
               None \<Rightarrow> Some (JStr s)
             | Some jsonErr \<Rightarrow>
                 (case property (Some jsonErr) ''error'' of
                    Inl _ \<Rightarrow> Some (JStr s)
                  | Inr err \<Rightarrow>
                      if truthy err then
                        (case property err ''message'' of
                           Inl _ \<Rightarrow> Some (JStr s)
                         | Inr m \<Rightarrow> if truthy m then m else Some (JStr s))
                      else Some (JStr s)))
          else Some (JStr s))"

text \<open>\<open>s.includes(tok)\<close> on strings: \<open>tok\<close> occurs at some index of \<open>s\<close>, compared
  code unit by code unit.\<close>

fun str_includes :: "string \<Rightarrow> string \<Rightarrow> bool" where
  "str_includes [] tok = (tok = [])"
| "str_includes (c # cs) tok = (prefix tok (c # cs) \<or> str_includes cs tok)"

text \<open>\<open>technicalMessage.includes(tok)\<close>: the string method, the array method (an
  element strictly equal to the token), and a \<open>TypeError\<close> on every other value.\<close>

definition js_includes :: "json option \<Rightarrow> string \<Rightarrow> js_error + bool" where
  "js_includes v tok =
     (case v of
        Some (JStr s) \<Rightarrow> Inr (str_includes s tok)
      | Some (JArr xs) \<Rightarrow> Inr (JStr tok \<in> set xs)
      | _ \<Rightarrow> Inl TypeError)"

text \<open>\<open>v.includes(t1) || v.includes(t2) || ...\<close>, left to right.\<close>

fun includesAny :: "json option \<Rightarrow> string list \<Rightarrow> js_error + bool" where
  "includesAny v [] = Inr False"
| "includesAny v (t # ts) =
     (case js_includes v t of
        Inl e \<Rightarrow> Inl e
      | Inr b \<Rightarrow> if b then Inr True else includesAny v ts)"

definition substring :: "json option \<Rightarrow> nat \<Rightarrow> nat \<Rightarrow> js_error + string" where
  "substring v i j =
     (case v of
        Some (JStr s) \<Rightarrow> Inr (take (j - i) (drop i s))
      | _ \<Rightarrow> Inl TypeError)"

definition categorize :: "json option \<Rightarrow> js_error + ErrorRecord" where
  "categorize tm =
     (case includesAny tm [''429'', ''quota'', ''RESOURCE_EXHAUSTED''] of
        Inl e \<Rightarrow> Inl e
      | Inr isRateLimit \<Rightarrow>
     (case includesAny tm [''SAFETY'', ''harmful''] of
        Inl e \<Rightarrow> Inl e
      | Inr isSafety \<Rightarrow>
     (case includesAny tm [''fetch'', ''network''] of
        Inl e \<Rightarrow> Inl e
      | Inr isNetwork \<Rightarrow>
          if isRateLimit then
            Inr \<lparr>category = RateLimit, technicalMessage = the tm,
                 friendlyMessage = ''Quota Exceeded. Cooling down neural link...'',
                 backoffMs = 25000\<rparr>
          else if isSafety then
            Inr \<lparr>category = Safety, technicalMessage = the tm,
                 friendlyMessage = ''Safety filters triggered. Adjusting parameters.'',
                 backoffMs = 5000\<rparr>
          else if isNetwork then
            Inr \<lparr>category = Network, technicalMessage = the tm,
                 friendlyMessage = ''Network uplink lost. Reconnecting...'',
                 backoffMs = 8000\<rparr>
          else
            (case substring tm 0 40 of
               Inl e \<Rightarrow> Inl e
             | Inr sub \<Rightarrow>
                 Inr \<lparr>category = Other, technicalMessage = the tm,
                      friendlyMessage = ''System Error: '' @ sub @ ''...'',
                      backoffMs = 5000\<rparr>))))"

text \<open>The classifier: message extraction, JSON unwrapping, categorisation. \<open>Inl\<close> is
  an exception that leaves the \<open>catch\<close> block.\<close>

definition classify :: "json option \<Rightarrow> thrown \<Rightarrow> js_error + ErrorRecord" where
  "classify parsed e =
     (case extractMessage e of
        Inl err \<Rightarrow> Inl err
      | Inr tm \<Rightarrow> categorize (unwrapJson parsed tm))"

subsection \<open>The classification the specification describes\<close>


definition spec_backoff :: "ErrorCategory \<Rightarrow> real" where
  "spec_backoff c =
     (case c of RateLimit \<Rightarrow> 25000 | Safety \<Rightarrow> 5000 | Network \<Rightarrow> 8000 | Other \<Rightarrow> 5000)"




section \<open>The application state (\<open>App\<close>, src/types.ts)\<close>

record CursorState =
  cx :: real
  cy :: real
  isDown :: bool
  ctype :: string
  isVisible :: bool
  precisionMode :: bool

text \<open>
  The state of the \<open>App\<close> component that the scheduler and the animation read and
  write, together with the part of the browser they act on. The status line
  (\<open>systemMessage\<close>), the profile list, the current image and the feedback flags are
  display state and are left out. \<open>isAutoPilot\<close> stands for both the state and the ref
  that mirrors it.

  Timer handles are the positive integers \<open>window.setTimeout\<close> and
  \<open>window.setInterval\<close> return, so the test \<open>if (ref.current)\<close> on a handle is the
  test for \<open>null\<close>. The browser's table of active timers (\<open>timers\<close>) maps a handle to
  its delay or period in milliseconds, and \<open>nextHandle\<close> is the handle it gives out
  next. \<open>videoRef\<close> is the video element, if mounted, with its \<open>srcObject\<close>. A media
  stream is named by a number; \<open>stoppedStreams\<close> lists, in order, the streams whose
  tracks were stopped.
\<close>

type_synonym handle = nat
type_synonym stream = nat

record App =
  mode :: AppMode
  isAnalyzing :: bool
  result :: "AnalysisResult option"
  error :: "string option"
  retryTimer :: real
  cursorState :: CursorState
  isAutoPilot :: bool
  momentum :: real
  timerRef :: "handle option"
  retryIntervalRef :: "handle option"
  isLiveRef :: bool
  videoRef :: "stream option option"
  timers :: "handle \<rightharpoonup> real"
  nextHandle :: handle
  stoppedStreams :: "stream list"
  storage :: Storage

text \<open>The initial state of the component (the \<open>useState\<close> and \<open>useRef\<close> initial
  values), with a mounted video element and empty stores.\<close>

definition initialApp :: App where
  "initialApp =
     \<lparr>mode = UPLOAD, isAnalyzing = False, result = None, error = None,
      retryTimer = 0,
      cursorState = \<lparr>cx = 500, cy = 500, isDown = False, ctype = ''IDLE'', isVisible = False,
                      precisionMode = False\<rparr>,
      isAutoPilot = True, momentum = 1, timerRef = None, retryIntervalRef = None,
      isLiveRef = False, videoRef = Some None, timers = Map.empty, nextHandle = 1,
      stoppedStreams = [], storage = \<lparr>logsStore = None, errorsStore = None\<rparr>\<rparr>"

definition clearTimer :: "handle \<Rightarrow> App \<Rightarrow> App" where
  "clearTimer h a = a\<lparr>timers := (timers a)(h := None)\<rparr>"

definition setTimer :: "real \<Rightarrow> App \<Rightarrow> handle \<times> App" where
  "setTimer ms a =
     (nextHandle a, a\<lparr>timers := (timers a)(nextHandle a \<mapsto> ms), nextHandle := nextHandle a + 1\<rparr>)"

subsection \<open>\<open>stopLiveAnalysis\<close>\<close>

definition stopLiveAnalysis :: "App \<Rightarrow> App" where
  "stopLiveAnalysis a =
     (let a1 = a\<lparr>isLiveRef := False\<rparr>;
          a2 = (case timerRef a1 of
                  Some h \<Rightarrow> (clearTimer h a1)\<lparr>timerRef := None\<rparr>
                | None \<Rightarrow> a1);
          a3 = (case retryIntervalRef a2 of
                  Some h \<Rightarrow> (clearTimer h a2)\<lparr>retryIntervalRef := None\<rparr>
                | None \<Rightarrow> a2);
          a4 = a3\<lparr>retryTimer := 0\<rparr>;
          a5 = (case videoRef a4 of
                  Some (Some stream) \<Rightarrow>
                    a4\<lparr>stoppedStreams := stoppedStreams a4 @ [stream], videoRef := Some None\<rparr>
                | _ \<Rightarrow> a4)
      in a5\<lparr>cursorState := (cursorState a5)\<lparr>isVisible := False\<rparr>\<rparr>)"

subsection \<open>\<open>triggerAnalysis\<close>\<close>

text \<open>
  The body of \<open>triggerAnalysis\<close> in its four parts: the statements before the
  \<open>try\<close>, the \<open>try\<close> block after the analysis call resolved, the \<open>catch\<close> block after it
  rejected, and the \<open>finally\<close> block. The profile bookkeeping (auto-learned notes), the
  voice feedback and the log statistics do not touch the state modelled here and are
  left out. \<open>now\<close> is \<open>Date.now()\<close>, which also serves as the identifier of the
  record that is logged (the program uses its decimal string). \<open>closedMode\<close> is the
  \<open>mode\<close> the function closed over, which goes into the logged record: the mode of the
  render that created the closure, not the current one (a cycle started by the capture
  timer still sees the mode from before the live session). The function is called
  with at least one image. In the \<open>finally\<close> block, the branch for a live session with the
  auto-pilot off only writes the status line.
\<close>

definition triggerAnalysis_begin :: "App \<Rightarrow> App" where
  "triggerAnalysis_begin a =
     (let a1 = a\<lparr>isAnalyzing := True, retryTimer := 0, momentum := 1\<rparr>
      in case retryIntervalRef a1 of
           Some h \<Rightarrow> clearTimer h a1
         | None \<Rightarrow> a1)"

definition triggerAnalysis_try ::
  "nat \<Rightarrow> GameProfile \<Rightarrow> string list \<Rightarrow> AnalysisResult \<Rightarrow> App \<Rightarrow> App" where
  "triggerAnalysis_try now currentProfile base64Images analysis a =
     (let logEntry = \<lparr>log_id = now, log_gameId = profile_id currentProfile,
                      log_timestamp = result_timestamp analysis,
                      imageHash = take 30 (case base64Images of [] \<Rightarrow> [] | img # _ \<Rightarrow> img),
                      aiPrediction = analysis\<rparr>
      in a\<lparr>result := Some analysis, error := None,
           storage := saveLog logEntry (storage a)\<rparr>)"

definition triggerAnalysis_catch ::
  "nat \<Rightarrow> AppMode \<Rightarrow> GameProfile \<Rightarrow> json option \<Rightarrow> thrown \<Rightarrow> App
     \<Rightarrow> js_error + (real \<times> App)" where
  "triggerAnalysis_catch now closedMode currentProfile parsed e a =
     (case classify parsed e of
        Inl err \<Rightarrow> Inl err
      | Inr r \<Rightarrow>
          (let isRateLimit = (category r = RateLimit);
               nextDelay = backoffMs r;
               errLog = \<lparr>err_id = now, err_timestamp = now,
                         severity = (if isRateLimit then WARNING else ERROR),
                         message = technicalMessage r, context_mode = closedMode,
                         context_gameId = profile_id currentProfile,
                         context_gameName = profile_name currentProfile\<rparr>;
               a2 = a\<lparr>storage := saveErrorLog errLog (storage a)\<rparr>
           in if isRateLimit then
                (let a3 = a2\<lparr>error := None, retryTimer := nextDelay / 1000\<rparr>;
                     (h, a4) = setTimer 1000 a3
                 in Inr (nextDelay, a4\<lparr>retryIntervalRef := Some h\<rparr>))
              else
                Inr (nextDelay, a2\<lparr>error := Some (friendlyMessage r)\<rparr>)))"

definition triggerAnalysis_finally :: "real \<Rightarrow> App \<Rightarrow> App" where
  "triggerAnalysis_finally nextDelay a =
     (let a1 = a\<lparr>isAnalyzing := False\<rparr>
      in if isLiveRef a1 \<and> isAutoPilot a1 then
           (let (h, a2) = setTimer nextDelay a1 in a2\<lparr>timerRef := Some h\<rparr>)
         else a1)"

text \<open>How the analysis call settles: with a result, or rejected with a value, for which
  \<open>JSON.parse\<close> of its message text returns the given value.\<close>

datatype settled = Resolved AnalysisResult | Rejected thrown "json option"

text \<open>The whole function. The first component is the exception that leaves it, if
  any; the \<open>finally\<close> block runs in every case, with \<open>nextDelay\<close> as assigned so far.\<close>

definition triggerAnalysis ::
  "nat \<Rightarrow> AppMode \<Rightarrow> GameProfile \<Rightarrow> string list \<Rightarrow> settled \<Rightarrow> App
     \<Rightarrow> js_error option \<times> App" where
  "triggerAnalysis now closedMode currentProfile base64Images outcome a =
     (let a1 = triggerAnalysis_begin a
      in case outcome of
           Resolved analysis \<Rightarrow>
             (None, triggerAnalysis_finally 3000
                      (triggerAnalysis_try now currentProfile base64Images analysis a1))
         | Rejected e parsed \<Rightarrow>
             (case triggerAnalysis_catch now closedMode currentProfile parsed e a1 of
                Inl err \<Rightarrow> (Some err, triggerAnalysis_finally 3000 a1)
              | Inr (nextDelay, a2) \<Rightarrow> (None, triggerAnalysis_finally nextDelay a2)))"

text \<open>The callback of the retry interval, run by the browser once per period while the
  interval is active.\<close>

definition retryTick :: "App \<Rightarrow> App" where
  "retryTick a = a\<lparr>retryTimer := max 0 (retryTimer a - 1)\<rparr>"

text \<open>Sample records, used to run the definitions on concrete inputs.\<close>

definition sample_result :: AnalysisResult where
  "sample_result = \<lparr>title = ''Menu'', summary = ''Idle'', macroSequence = [],
     newlyDiscoveredRules = [], result_timestamp = 7\<rparr>"

definition sample_log :: "nat \<Rightarrow> TrainingLog" where
  "sample_log n = \<lparr>log_id = n, log_gameId = ''universal_auto'', log_timestamp = n,
     imageHash = ''abc'', aiPrediction = sample_result\<rparr>"

definition sample_error :: "nat \<Rightarrow> ErrorLog" where
  "sample_error n = \<lparr>err_id = n, err_timestamp = n, severity = ERROR,
     message = JStr ''weird stuff'', context_mode = UPLOAD,
     context_gameId = ''universal_auto'', context_gameName = ''Universal''\<rparr>"

definition full_storage :: Storage where
  "full_storage = \<lparr>logsStore = Some (map sample_log [0..<51]),
     errorsStore = Some (map sample_error [0..<51])\<rparr>"

definition sample_profile :: GameProfile where
  "sample_profile = \<lparr>profile_id = ''universal_auto'', profile_name = ''Universal'',
     profile_notes = []\<rparr>"

text \<open>A live session in the middle of a capture cycle: camera stream 7 attached, the
  timeout of handle 1 has fired and no timer is pending.\<close>

definition liveApp :: App where
  "liveApp = initialApp\<lparr>mode := LIVE_VISION, isLiveRef := True, videoRef := Some (Some 7),
     timerRef := Some 1, nextHandle := 2\<rparr>"

text \<open>The same session cooling down after a rate limit: the retry interval runs under
  handle 2 and the next capture is scheduled under handle 3.\<close>

definition coolingApp :: App where
  "coolingApp = liveApp\<lparr>retryIntervalRef := Some 2, retryTimer := 25, timerRef := Some 3,
     timers := [2 \<mapsto> 1000, 3 \<mapsto> 25000], nextHandle := 4\<rparr>"

section \<open>The ghost cursor animation (\<open>animateSingleStep\<close>, src/types.ts)\<close>

text \<open>
  What one call does, in order: the cursor states it sets and the timeouts it awaits
  (in milliseconds). A functional update \<open>setCursorState(prev => ...)\<close> is applied to the
  cursor state set last.
\<close>

datatype event = SetCursor CursorState | Wait real

definition finalCursor :: "CursorState \<Rightarrow> event list \<Rightarrow> CursorState" where
  "finalCursor c evs = foldl (\<lambda>c ev. case ev of SetCursor c' \<Rightarrow> c' | Wait _ \<Rightarrow> c) c evs"

definition type_name :: "StepType \<Rightarrow> string" where
  "type_name t =
     (case t of TAP \<Rightarrow> ''TAP'' | SWIPE \<Rightarrow> ''SWIPE'' | WAIT \<Rightarrow> ''WAIT'' | DRAG \<Rightarrow> ''DRAG''
              | HUMAN_SWIPE \<Rightarrow> ''HUMAN_SWIPE'')"

text \<open>The easing function chosen at line 288.\<close>

definition ease :: "StepType \<Rightarrow> real \<Rightarrow> real" where
  "ease ty t =
     (if ty = HUMAN_SWIPE then (if t < 1 / 2 then 2 * t * t else - 1 + (4 - 2 * t) * t) else t)"

text \<open>\<open>step.durationMs || 500\<close>, divided by the speed factor.\<close>

definition swipeDuration :: "MacroStep \<Rightarrow> real \<Rightarrow> real" where
  "swipeDuration step speedFactor =
     (let baseDuration = (if durationMs step \<noteq> 0 then durationMs step else 500)
      in baseDuration / speedFactor)"

definition swipeProgress :: "real \<Rightarrow> real \<Rightarrow> real \<Rightarrow> real" where
  "swipeProgress startTime duration currentTime =
     (let elapsed = currentTime - startTime in min (elapsed / duration) 1)"

text \<open>The cursor state one animation frame sets, at a given progress.\<close>

definition swipeFrame :: "MacroStep \<Rightarrow> Point \<Rightarrow> Point \<Rightarrow> real \<Rightarrow> CursorState" where
  "swipeFrame step p q progress =
     (let t = ease (step_type step) progress
      in \<lparr>cx = px p + (px q - px p) * t, cy = py p + (py q - py p) * t, isDown = True,
          ctype = type_name (step_type step), isVisible = True, precisionMode = False\<rparr>)"

text \<open>
  The frame callback \<open>animateSwipe\<close>, run on the timestamps the browser passes to the
  successive animation frames. It asks for another frame while the progress is below 1
  and resolves the promise at the first frame that reaches 1. The second component tells
  whether the promise was resolved within the given frames.
\<close>

fun animateSwipe ::
  "MacroStep \<Rightarrow> Point \<Rightarrow> Point \<Rightarrow> real \<Rightarrow> real \<Rightarrow> real list \<Rightarrow> event list \<times> bool" where
  "animateSwipe step p q startTime duration [] = ([], False)"
| "animateSwipe step p q startTime duration (currentTime # later) =
     (let progress = swipeProgress startTime duration currentTime;
          c = swipeFrame step p q progress
      in if progress < 1
         then (SetCursor c # fst (animateSwipe step p q startTime duration later),
               snd (animateSwipe step p q startTime duration later))
         else ([SetCursor c, SetCursor (c\<lparr>isDown := False\<rparr>)], True))"

text \<open>1. Travel phase.\<close>

definition travelPhase :: "real \<Rightarrow> MacroStep \<Rightarrow> event list" where
  "travelPhase speedFactor step =
     (case coordinates step of
        Some p \<Rightarrow>
          [SetCursor \<lparr>cx = px p, cy = py p, isDown = False, ctype = ''MOVE'', isVisible = True,
                      precisionMode = False\<rparr>,
           Wait (200 / speedFactor)]
      | None \<Rightarrow> [])"

text \<open>2. Target lock phase.\<close>

definition lockPhase :: "MacroStep \<Rightarrow> CursorState \<Rightarrow> event list" where
  "lockPhase step c =
     (if coordinates step \<noteq> None \<and> step_type step \<noteq> WAIT
      then [SetCursor (c\<lparr>precisionMode := True\<rparr>), Wait 50]
      else [])"

text \<open>
  3. Action phase: its events, whether its promise was resolved, and whether control
  goes on to the recovery wait (the swipe branch returns its promise instead).
\<close>

definition actionPhase ::
  "real \<Rightarrow> real list \<Rightarrow> real \<Rightarrow> MacroStep \<Rightarrow> CursorState \<Rightarrow> event list \<times> bool \<times> bool" where
  "actionPhase startTime frames speedFactor step c =
     (if step_type step = TAP then
        (let down = (case coordinates step of
                       Some p \<Rightarrow> c\<lparr>cx := px p, cy := py p, isDown := True, ctype := ''TAP'',
                                   precisionMode := True\<rparr>
                     | None \<Rightarrow> c\<lparr>isDown := True, ctype := ''TAP'', precisionMode := True\<rparr>);
             pressDuration = 100 / speedFactor
         in ([SetCursor down, Wait pressDuration,
              SetCursor (down\<lparr>isDown := False, precisionMode := False\<rparr>)], True, True))
      else if (step_type step = SWIPE \<or> step_type step = HUMAN_SWIPE \<or> step_type step = DRAG)
              \<and> coordinates step \<noteq> None \<and> endCoordinates step \<noteq> None then
        (let p = the (coordinates step); q = the (endCoordinates step);
             duration = swipeDuration step speedFactor;
             swipe = animateSwipe step p q startTime duration frames
         in (SetCursor (c\<lparr>isDown := True, ctype := type_name (step_type step),
                          precisionMode := False\<rparr>) # fst swipe,
             snd swipe, False))
      else if step_type step = WAIT then
        ([SetCursor (c\<lparr>ctype := ''WAIT...''\<rparr>), Wait (durationMs step)], True, True)
      else ([], True, True))"

text \<open>
  The whole callback, for the step at hand (\<open>None\<close> is \<open>undefined\<close>): the new state,
  the events, and whether the returned promise was resolved. \<open>speedFactor\<close> is the
  momentum the callback closed over, the value before this call's increment.
  \<open>startTime\<close> is \<open>performance.now()\<close> at the start of a swipe and \<open>frames\<close> are the
  timestamps of the animation frames that follow. The cancellation of a frame request
  left by an earlier call is not modelled: calls do not overlap here.
\<close>

definition animateSingleStep ::
  "real \<Rightarrow> real list \<Rightarrow> MacroStep option \<Rightarrow> App \<Rightarrow> App \<times> event list \<times> bool" where
  "animateSingleStep startTime frames stepOpt a =
     (case stepOpt of
        None \<Rightarrow> (a, [], True)
      | Some step \<Rightarrow>
          if \<not> isAutoPilot a \<and> mode a \<noteq> UPLOAD then (a, [], True)
          else
            (let speedFactor = momentum a;
                 c0 = (cursorState a)\<lparr>isVisible := True, precisionMode := False\<rparr>;
                 travel = travelPhase speedFactor step;
                 c1 = finalCursor c0 travel;
                 lock = lockPhase step c1;
                 c2 = finalCursor c1 lock;
                 act = actionPhase startTime frames speedFactor step c2;
                 recover = (if snd (snd act) then [Wait (100 / speedFactor)] else []);
                 evs = SetCursor c0 # travel @ lock @ fst act @ recover
             in (a\<lparr>momentum := min (momentum a + 1 / 10) 2,
                   cursorState := finalCursor (cursorState a) evs\<rparr>,
                 evs, fst (snd act))))"

section \<open>The playback controller (\<open>MacroView\<close>, src/components/MacroView.tsx)\<close>

record MacroView =
  sequence :: "MacroStep list"
  currentStepIndex :: int
  isLocallyPlaying :: bool
  swipeSpeed :: real

text \<open>The component as first rendered with a sequence: index \<open>-1\<close>, playing as the
  \<open>isPlaying\<close> prop says, swipe speed 1.\<close>

definition initialView :: "MacroStep list \<Rightarrow> bool \<Rightarrow> MacroView" where
  "initialView seq initialIsPlaying =
     \<lparr>sequence = seq, currentStepIndex = - 1, isLocallyPlaying = initialIsPlaying,
      swipeSpeed = 1\<rparr>"

text \<open>\<open>sequence[i]\<close>: \<open>undefined\<close> outside the array.\<close>

definition item :: "'a list \<Rightarrow> int \<Rightarrow> 'a option" where
  "item xs i = (if 0 \<le> i \<and> i < int (length xs) then Some (xs ! nat i) else None)"

text \<open>The effect on \<open>[sequence]\<close>: a new sequence has arrived.\<close>

definition attach :: "MacroStep list \<Rightarrow> MacroView \<Rightarrow> MacroView" where
  "attach seq v =
     (if length seq > 0
      then v\<lparr>sequence := seq, currentStepIndex := 0, isLocallyPlaying := True\<rparr>
      else v\<lparr>sequence := seq, currentStepIndex := - 1, isLocallyPlaying := False\<rparr>)"

definition togglePlay :: "MacroView \<Rightarrow> MacroView" where
  "togglePlay v = v\<lparr>isLocallyPlaying := \<not> isLocallyPlaying v\<rparr>"

text \<open>
  \<open>App\<close> hands \<open>animateSingleStep\<close> down as \<open>onPreviewStep\<close> while the auto-pilot is on,
  and \<open>undefined\<close> otherwise. The controls start the preview without awaiting it.
\<close>

definition stepForward :: "real \<times> real list \<Rightarrow> App \<times> MacroView \<Rightarrow> App \<times> MacroView" where
  "stepForward clock s =
     (let a = fst s; v = snd s;
          nextIndex = min (currentStepIndex v + 1) (int (length (sequence v)) - 1);
          v' = v\<lparr>isLocallyPlaying := False, currentStepIndex := nextIndex\<rparr>
      in case item (sequence v) nextIndex of
           Some step \<Rightarrow>
             if isAutoPilot a
             then (fst (animateSingleStep (fst clock) (snd clock) (Some step) a), v')
             else (a, v')
         | None \<Rightarrow> (a, v'))"

definition stepBackward :: "real \<times> real list \<Rightarrow> App \<times> MacroView \<Rightarrow> App \<times> MacroView" where
  "stepBackward clock s =
     (let a = fst s; v = snd s;
          prevIndex = max (currentStepIndex v - 1) 0;
          v' = v\<lparr>isLocallyPlaying := False, currentStepIndex := prevIndex\<rparr>
      in case item (sequence v) prevIndex of
           Some step \<Rightarrow>
             if isAutoPilot a
             then (fst (animateSingleStep (fst clock) (snd clock) (Some step) a), v')
             else (a, v')
         | None \<Rightarrow> (a, v'))"

text \<open>
  What one iteration of the \<open>while\<close> loop of \<open>playLoop\<close> reads from outside its own
  code. \<open>updaterRan\<close>: the loop reads the index with
  \<open>let idx = -1; setCurrentStepIndex(prev => { idx = prev; return prev; })\<close>, so \<open>idx\<close>
  is the current index only if React runs the updater at once; if the component has an
  update pending, the updater is queued and \<open>idx\<close> keeps its \<open>-1\<close>. \<open>mountedAfter\<close> and
  \<open>playingAfter\<close>: the values of \<open>isMounted\<close> and \<open>isPlayingRef.current\<close> at line 91,
  after the preview was awaited; \<open>isMounted\<close> is false there once the effect was cleaned
  up, which every change of \<open>onPreviewStep\<close> causes.
\<close>

record LoopReads =
  updaterRan :: bool
  mountedAfter :: bool
  playingAfter :: bool

text \<open>
  One iteration of the loop, entered with the loop condition true. The first
  component tells whether the loop goes on to another iteration. The state updates of
  the iteration are applied in the order the code issues them. The waits of the loop
  itself (the fallback wait when there is no preview callback, the 200 ms pause between
  steps) take time only and are left out.
\<close>

definition playLoop_body ::
  "LoopReads \<Rightarrow> real \<times> real list \<Rightarrow> App \<times> MacroView \<Rightarrow> bool \<times> App \<times> MacroView" where
  "playLoop_body reads clock s =
     (let a = fst s; v = snd s;
          idx = (if updaterRan reads then currentStepIndex v else - 1)
      in if idx \<ge> int (length (sequence v)) then (False, a, v\<lparr>isLocallyPlaying := False\<rparr>)
         else
           (case item (sequence v) idx of
              None \<Rightarrow> (False, a, v\<lparr>isLocallyPlaying := False\<rparr>)
            | Some stepData \<Rightarrow>
                (let played = (if isAutoPilot a
                               then animateSingleStep (fst clock) (snd clock) (Some stepData) a
                               else (a, [], True));
                     a' = fst played
                 in if \<not> snd (snd played) then (False, a', v)
                    else if \<not> mountedAfter reads then (False, a', v)
                    else if \<not> playingAfter reads then (False, a', v)
                    else (True, a', v\<lparr>currentStepIndex := currentStepIndex v + 1\<rparr>))))"

text \<open>Step animations run one after another, each with its start time and frames.\<close>

definition previewAll :: "(real \<times> real list \<times> MacroStep) list \<Rightarrow> App \<Rightarrow> App" where
  "previewAll calls a =
     foldl (\<lambda>a c. fst (animateSingleStep (fst c) (fst (snd c)) (Some (snd (snd c))) a)) a calls"

text \<open>Sample steps.\<close>

definition tapAt :: "real \<Rightarrow> real \<Rightarrow> MacroStep" where
  "tapAt u w = \<lparr>step_id = ''t'', step_type = TAP, coordinates = Some \<lparr>px = u, py = w\<rparr>,
     endCoordinates = None, durationMs = 0, description = ''tap''\<rparr>"

definition swipeStep :: "StepType \<Rightarrow> real \<Rightarrow> MacroStep" where
  "swipeStep ty d = \<lparr>step_id = ''s'', step_type = ty, coordinates = Some \<lparr>px = 0, py = 0\<rparr>,
     endCoordinates = Some \<lparr>px = 1000, py = 1000\<rparr>, durationMs = d, description = ''swipe''\<rparr>"

definition inertSwipe :: MacroStep where
  "inertSwipe = \<lparr>step_id = ''i'', step_type = SWIPE, coordinates = Some \<lparr>px = 300, py = 700\<rparr>,
     endCoordinates = None, durationMs = 400, description = ''no end point''\<rparr>"

text \<open>The range the controller keeps the index in: between \<open>-1\<close> and the length of
  the sequence (the operations preserve it, as shown below).\<close>

definition index_in_range :: "MacroView \<Rightarrow> bool" where
  "index_in_range v \<longleftrightarrow>
     - 1 \<le> currentStepIndex v \<and> currentStepIndex v \<le> int (length (sequence v))"

text \<open>
  The motion the specification describes for a swipe: an ease curve that is \<open>2t\<^sup>2\<close>
  below one half and \<open>1 - 2(1 - t)\<^sup>2\<close> from there on for a HumanSwipe and linear for the
  other kinds, applied to the progress over \<open>max(durationMs, 1) / momentum\<close>
  milliseconds.
\<close>

definition spec_ease :: "StepType \<Rightarrow> real \<Rightarrow> real" where
  "spec_ease ty t =
     (if ty = HUMAN_SWIPE then (if t < 1 / 2 then 2 * t\<^sup>2 else 1 - 2 * (1 - t)\<^sup>2) else t)"

definition spec_swipe_position ::
  "MacroStep \<Rightarrow> Point \<Rightarrow> Point \<Rightarrow> real \<Rightarrow> real \<Rightarrow> real \<times> real" where
  "spec_swipe_position step p q m elapsed =
     (let e = spec_ease (step_type step) (min (elapsed / (max (durationMs step) 1 / m)) 1)
      in (px p + (px q - px p) * e, py p + (py q - py p) * e))"

definition momentum_in_range :: "App \<Rightarrow> bool" where
  "momentum_in_range a \<longleftrightarrow> 1 \<le> momentum a \<and> momentum a \<le> 2"

section \<open>The stores are bounded\<close>

lemma length_shift: "length (shift xs) = length xs - 1"
  by (cases xs) (simp_all add: shift_def)

lemma stored_logs_saveLog:
  "stored_logs (saveLog l st) =
     (if length (stored_logs st) > 50 then shift (stored_logs st) else stored_logs st) @ [l]"
  by (simp add: saveLog_def stored_logs_def Let_def)

lemma stored_errors_saveErrorLog:
  "stored_errors (saveErrorLog e st) =
     (if length (stored_errors st) > 50 then shift (stored_errors st) else stored_errors st) @ [e]"
  by (simp add: saveErrorLog_def stored_errors_def Let_def)

text \<open>
  C10. A call of \<open>saveLog\<close> or \<open>saveErrorLog\<close> on a store of at most 51 records
  leaves at most 51 records; the saved record is the last element of the stored list; and
  when the list held more than 50 records before the call, its first (oldest) record is
  dropped, the others keeping their order.
\<close>

theorem save_keeps_store_bounded:
  "(length (stored_logs st) \<le> 51 \<longrightarrow> length (stored_logs (saveLog l st)) \<le> 51) \<and>
   stored_logs (saveLog l st) \<noteq> [] \<and> last (stored_logs (saveLog l st)) = l \<and>
   (length (stored_logs st) > 50 \<longrightarrow>
      stored_logs (saveLog l st) = tl (stored_logs st) @ [l]) \<and>
   (length (stored_errors st) \<le> 51 \<longrightarrow> length (stored_errors (saveErrorLog e st)) \<le> 51) \<and>
   stored_errors (saveErrorLog e st) \<noteq> [] \<and> last (stored_errors (saveErrorLog e st)) = e \<and>
   (length (stored_errors st) > 50 \<longrightarrow>
      stored_errors (saveErrorLog e st) = tl (stored_errors st) @ [e])"
proof -
  have shift_tl: "\<And>xs :: 'a list. shift xs = tl xs"
    by (simp add: shift_def split: list.splits)
  show ?thesis
    unfolding stored_logs_saveLog stored_errors_saveErrorLog
    by (auto simp add: length_shift shift_tl)
qed

theorem save_keeps_store_bounded_witness:
  "length (stored_logs full_storage) \<le> 51 \<and> length (stored_logs full_storage) > 50 \<and>
   length (stored_logs (saveLog (sample_log 99) full_storage)) \<le> 51 \<and>
   last (stored_logs (saveLog (sample_log 99) full_storage)) = sample_log 99 \<and>
   stored_logs (saveLog (sample_log 99) full_storage)
     = tl (stored_logs full_storage) @ [sample_log 99] \<and>
   length (stored_errors full_storage) \<le> 51 \<and> length (stored_errors full_storage) > 50 \<and>
   length (stored_errors (saveErrorLog (sample_error 99) full_storage)) \<le> 51 \<and>
   last (stored_errors (saveErrorLog (sample_error 99) full_storage)) = sample_error 99 \<and>
   stored_errors (saveErrorLog (sample_error 99) full_storage)
     = tl (stored_errors full_storage) @ [sample_error 99]"
proof -
  have a: "length (stored_logs full_storage) = 51"
    by (simp add: full_storage_def stored_logs_def)
  have b: "length (stored_errors full_storage) = 51"
    by (simp add: full_storage_def stored_errors_def)
  show ?thesis
    using save_keeps_store_bounded [of full_storage "sample_log 99" "sample_error 99"] a b
    by simp
qed

section \<open>The error classifier\<close>







text \<open>
  The classifier is not total: a payload whose \<open>error.message\<close> is a number reaches
  \<open>includes\<close> as a number, and a rejection with \<open>undefined\<close> reaches it as
  \<open>undefined\<close>; both leave the \<open>catch\<close> block with a \<open>TypeError\<close>.
\<close>

lemma classify_throws_on_number_message:
  "classify (Some (JObj [(''error'', JObj [(''message'', JNum 429)])])) (ThrownString ''{x'')
     = Inl TypeError"
  by (simp add: classify_def extractMessage_def unwrapJson_def startsWith_def trim_def
      is_space_def categorize_def js_includes_def)

lemma classify_throws_on_undefined: "classify parsed (ThrownOther NotSerialized) = Inl TypeError"
  by (simp add: classify_def extractMessage_def unwrapJson_def categorize_def js_includes_def)





section \<open>Stopping live analysis\<close>

lemma stopLiveAnalysis_fields:
  "isLiveRef (stopLiveAnalysis a) = False"
  "timerRef (stopLiveAnalysis a) = None"
  "retryIntervalRef (stopLiveAnalysis a) = None"
  "retryTimer (stopLiveAnalysis a) = 0"
  "videoRef (stopLiveAnalysis a) = (case videoRef a of None \<Rightarrow> None | Some _ \<Rightarrow> Some None)"
  "stoppedStreams (stopLiveAnalysis a)
     = stoppedStreams a @ (case videoRef a of Some (Some s) \<Rightarrow> [s] | _ \<Rightarrow> [])"
  by (simp_all add: stopLiveAnalysis_def clearTimer_def Let_def split: option.splits)

lemma stopLiveAnalysis_closed:
  "stopLiveAnalysis a =
     a\<lparr>isLiveRef := False, timerRef := None, retryIntervalRef := None, retryTimer := 0,
       timers := (\<lambda>h. if timerRef a = Some h \<or> retryIntervalRef a = Some h then None
                       else timers a h),
       videoRef := (case videoRef a of None \<Rightarrow> None | Some _ \<Rightarrow> Some None),
       stoppedStreams := stoppedStreams a @ (case videoRef a of Some (Some s) \<Rightarrow> [s] | _ \<Rightarrow> []),
       cursorState := (cursorState a)\<lparr>isVisible := False\<rparr>\<rparr>"
  by (auto simp add: stopLiveAnalysis_def clearTimer_def Let_def fun_eq_iff split: option.splits)

lemma stopLiveAnalysis_twice: "stopLiveAnalysis (stopLiveAnalysis a) = stopLiveAnalysis a"
  by (subst (1 2 3) stopLiveAnalysis_closed) (simp split: option.splits)

lemma stopLiveAnalysis_repeated: "(stopLiveAnalysis ^^ Suc n) a = stopLiveAnalysis a"
  by (induction n) (simp_all add: stopLiveAnalysis_twice)

text \<open>
  C8. \<open>stopLiveAnalysis\<close> is idempotent: any number of calls in a row leaves the
  state of the first call. That state is not live (the scheduler's mode is Idle), holds no
  capture timer handle and no retry interval handle, the timers those handles named are
  no longer active, the retry countdown is zero and the video element has no stream. The
  stream that was attached has its tracks stopped once, whatever the number of calls. The
  function has no failing path: it is total on every state.
\<close>

theorem stopLiveAnalysis_idempotent:
  "stopLiveAnalysis (stopLiveAnalysis a) = stopLiveAnalysis a \<and>
   (stopLiveAnalysis ^^ Suc n) a = stopLiveAnalysis a \<and>
   isLiveRef ((stopLiveAnalysis ^^ Suc n) a) = False \<and>
   timerRef ((stopLiveAnalysis ^^ Suc n) a) = None \<and>
   retryIntervalRef ((stopLiveAnalysis ^^ Suc n) a) = None \<and>
   (case timerRef a of None \<Rightarrow> True | Some h \<Rightarrow> timers (stopLiveAnalysis a) h = None) \<and>
   (case retryIntervalRef a of None \<Rightarrow> True | Some h \<Rightarrow> timers (stopLiveAnalysis a) h = None) \<and>
   retryTimer ((stopLiveAnalysis ^^ Suc n) a) = 0 \<and>
   (\<forall>s. videoRef ((stopLiveAnalysis ^^ Suc n) a) \<noteq> Some (Some s)) \<and>
   stoppedStreams ((stopLiveAnalysis ^^ Suc n) a)
     = stoppedStreams a @ (case videoRef a of Some (Some s) \<Rightarrow> [s] | _ \<Rightarrow> [])"
proof -
  have cleared: "(case timerRef a of None \<Rightarrow> True | Some h \<Rightarrow> timers (stopLiveAnalysis a) h = None)"
    "(case retryIntervalRef a of None \<Rightarrow> True | Some h \<Rightarrow> timers (stopLiveAnalysis a) h = None)"
    by (simp_all add: stopLiveAnalysis_def clearTimer_def Let_def split: option.splits)
  have video: "videoRef (stopLiveAnalysis a) \<noteq> Some (Some s)" for s
    by (simp add: stopLiveAnalysis_fields split: option.splits)
  show ?thesis
    unfolding stopLiveAnalysis_repeated
    using cleared video
    by (simp add: stopLiveAnalysis_twice stopLiveAnalysis_fields)
qed

text \<open>On the session that is cooling down: two calls stop stream 7 once and clear both timers.\<close>

lemma stopLiveAnalysis_coolingApp:
  "stoppedStreams (stopLiveAnalysis (stopLiveAnalysis coolingApp)) = [7] \<and>
   timers (stopLiveAnalysis (stopLiveAnalysis coolingApp)) = Map.empty \<and>
   isLiveRef (stopLiveAnalysis (stopLiveAnalysis coolingApp)) = False"
  by (simp add: stopLiveAnalysis_def clearTimer_def coolingApp_def liveApp_def initialApp_def
      Let_def)

section \<open>The retry countdown\<close>

lemma categorize_backoff:
  "categorize tm = Inr r \<Longrightarrow> backoffMs r = spec_backoff (category r)"
  unfolding categorize_def
  by (auto simp: spec_backoff_def split: sum.splits if_splits)

lemma classify_backoff: "classify parsed e = Inr r \<Longrightarrow> backoffMs r = spec_backoff (category r)"
  by (auto simp: classify_def dest: categorize_backoff split: sum.splits)

lemma retryTick_funpow:
  "0 \<le> retryTimer a \<Longrightarrow> retryTimer ((retryTick ^^ n) a) = max 0 (retryTimer a - real n)"
  by (induction n) (auto simp: retryTick_def)

lemma triggerAnalysis_rate_limited:
  assumes "classify parsed e = Inr r" "category r = RateLimit"
  shows "fst (triggerAnalysis now md prof imgs (Rejected e parsed) a) = None"
    and "retryTimer (snd (triggerAnalysis now md prof imgs (Rejected e parsed) a)) = 25"
    and "retryIntervalRef (snd (triggerAnalysis now md prof imgs (Rejected e parsed) a))
           = Some (nextHandle a)"
    and "timers (snd (triggerAnalysis now md prof imgs (Rejected e parsed) a)) (nextHandle a)
           = Some 1000"
  using assms classify_backoff [OF assms(1)]
  by (simp_all add: triggerAnalysis_def triggerAnalysis_catch_def triggerAnalysis_begin_def
      triggerAnalysis_finally_def setTimer_def clearTimer_def spec_backoff_def Let_def
      split: option.splits)

lemma triggerAnalysis_not_rate_limited:
  assumes "classify parsed e = Inr r" "category r \<noteq> RateLimit"
  shows "fst (triggerAnalysis now md prof imgs (Rejected e parsed) a) = None"
    and "retryTimer (snd (triggerAnalysis now md prof imgs (Rejected e parsed) a)) = 0"
    and "retryIntervalRef (snd (triggerAnalysis now md prof imgs (Rejected e parsed) a))
           = retryIntervalRef a"
    and "error (snd (triggerAnalysis now md prof imgs (Rejected e parsed) a))
           = Some (friendlyMessage r)"
  using assms
  by (simp_all add: triggerAnalysis_def triggerAnalysis_catch_def triggerAnalysis_begin_def
      triggerAnalysis_finally_def setTimer_def clearTimer_def Let_def
      split: option.splits)

text \<open>
  C5 (as amended). After an analysis failure that classifies as RateLimit, the retry
  countdown is set to the backoff in seconds (25000 / 1000 = 25), a one-second interval is
  installed under \<open>retryIntervalRef\<close>, and each of its ticks lowers the countdown by one
  until it reaches zero, where it stays. After a failure of one of the other three
  categories the countdown is zero, no interval is installed, and the failure is shown
  as the error message instead.
\<close>

theorem retry_countdown_only_for_rate_limit:
  assumes "classify parsed e = Inr r"
  shows "fst (triggerAnalysis now md prof imgs (Rejected e parsed) a) = None \<and>
    (let a' = snd (triggerAnalysis now md prof imgs (Rejected e parsed) a) in
       (category r = RateLimit \<longrightarrow>
          backoffMs r = 25000 \<and> retryTimer a' = backoffMs r / 1000 \<and>
          (\<exists>h. retryIntervalRef a' = Some h \<and> timers a' h = Some 1000) \<and>
          (\<forall>n. retryTimer ((retryTick ^^ n) a') = max 0 (25 - real n)) \<and>
          retryTimer ((retryTick ^^ 25) a') = 0) \<and>
       (category r \<noteq> RateLimit \<longrightarrow>
          retryTimer a' = 0 \<and> retryIntervalRef a' = retryIntervalRef a \<and>
          error a' = Some (friendlyMessage r) \<and>
          (\<forall>n. retryTimer ((retryTick ^^ n) a') = 0)))"
proof (cases "category r = RateLimit")
  case True
  define a' where "a' = snd (triggerAnalysis now md prof imgs (Rejected e parsed) a)"
  note facts = triggerAnalysis_rate_limited [OF assms True, of now md prof imgs a, folded a'_def]
  have ticks: "retryTimer ((retryTick ^^ n) a') = max 0 (25 - real n)" for n
    using retryTick_funpow [of a' n] facts(2) by simp
  have zero: "retryTimer ((retryTick ^^ 25) a') = 0"
    using ticks [of 25] by simp
  have delay: "backoffMs r = 25000"
    using classify_backoff [OF assms] True by (simp add: spec_backoff_def)
  have handle: "\<exists>h. retryIntervalRef a' = Some h \<and> timers a' h = Some 1000"
    using facts(3,4) by blast
  have "retryTimer a' = backoffMs r / 1000"
    using facts(2) delay by simp
  with True facts(1) delay handle ticks zero show ?thesis
    unfolding Let_def a'_def [symmetric] by blast
next
  case False
  define a' where "a' = snd (triggerAnalysis now md prof imgs (Rejected e parsed) a)"
  note facts = triggerAnalysis_not_rate_limited [OF assms False, of now md prof imgs a,
      folded a'_def]
  have ticks: "retryTimer ((retryTick ^^ n) a') = 0" for n
    using retryTick_funpow [of a' n] facts(2) by simp
  from False facts ticks show ?thesis
    unfolding Let_def a'_def [symmetric] by blast
qed

lemma classify_fetch_failed:
  "classify None (ThrownString ''TypeError: fetch failed'')
     = Inr \<lparr>category = Network, technicalMessage = JStr ''TypeError: fetch failed'',
            friendlyMessage = ''Network uplink lost. Reconnecting...'', backoffMs = 8000\<rparr>"
  by (simp add: classify_def extractMessage_def unwrapJson_def startsWith_def trim_def
      is_space_def categorize_def js_includes_def substring_def)

lemma classify_resource_exhausted:
  "classify None (ThrownString ''Error 429: RESOURCE_EXHAUSTED'')
     = Inr \<lparr>category = RateLimit, technicalMessage = JStr ''Error 429: RESOURCE_EXHAUSTED'',
            friendlyMessage = ''Quota Exceeded. Cooling down neural link...'',
            backoffMs = 25000\<rparr>"
  by (simp add: classify_def extractMessage_def unwrapJson_def startsWith_def trim_def
      is_space_def categorize_def js_includes_def substring_def)

theorem retry_countdown_only_for_rate_limit_witness:
  "classify None (ThrownString ''Error 429: RESOURCE_EXHAUSTED'')
     = Inr \<lparr>category = RateLimit, technicalMessage = JStr ''Error 429: RESOURCE_EXHAUSTED'',
            friendlyMessage = ''Quota Exceeded. Cooling down neural link...'',
            backoffMs = 25000\<rparr> \<and>
   retryTimer (snd (triggerAnalysis 1 UPLOAD sample_profile [''a'', ''b'']
      (Rejected (ThrownString ''Error 429: RESOURCE_EXHAUSTED'') None) liveApp)) = 25 \<and>
   retryTimer ((retryTick ^^ 25) (snd (triggerAnalysis 1 UPLOAD sample_profile [''a'', ''b'']
      (Rejected (ThrownString ''Error 429: RESOURCE_EXHAUSTED'') None) liveApp))) = 0 \<and>
   classify None (ThrownString ''TypeError: fetch failed'')
     = Inr \<lparr>category = Network, technicalMessage = JStr ''TypeError: fetch failed'',
            friendlyMessage = ''Network uplink lost. Reconnecting...'', backoffMs = 8000\<rparr> \<and>
   retryTimer (snd (triggerAnalysis 1 UPLOAD sample_profile [''a'', ''b'']
      (Rejected (ThrownString ''TypeError: fetch failed'') None) liveApp)) = 0 \<and>
   error (snd (triggerAnalysis 1 UPLOAD sample_profile [''a'', ''b'']
      (Rejected (ThrownString ''TypeError: fetch failed'') None) liveApp))
     = Some ''Network uplink lost. Reconnecting...''"
  using retry_countdown_only_for_rate_limit [OF classify_resource_exhausted,
      of 1 UPLOAD sample_profile "[''a'', ''b'']" liveApp]
    retry_countdown_only_for_rate_limit [OF classify_fetch_failed,
      of 1 UPLOAD sample_profile "[''a'', ''b'']" liveApp]
    classify_resource_exhausted classify_fetch_failed
  by (simp add: Let_def)

theorem retry_countdown_counterexample:
  "classify None (ThrownString ''TypeError: fetch failed'')
     = Inr \<lparr>category = Network, technicalMessage = JStr ''TypeError: fetch failed'',
            friendlyMessage = ''Network uplink lost. Reconnecting...'', backoffMs = 8000\<rparr> \<and>
   fst (triggerAnalysis 1 UPLOAD sample_profile [''a'', ''b'']
      (Rejected (ThrownString ''TypeError: fetch failed'') None) liveApp) = None \<and>
   retryTimer (snd (triggerAnalysis 1 UPLOAD sample_profile [''a'', ''b'']
      (Rejected (ThrownString ''TypeError: fetch failed'') None) liveApp)) = 0 \<and>
   timers (snd (triggerAnalysis 1 UPLOAD sample_profile [''a'', ''b'']
      (Rejected (ThrownString ''TypeError: fetch failed'') None) liveApp))
     = [2 \<mapsto> 8000]"
  by (simp add: classify_fetch_failed triggerAnalysis_def triggerAnalysis_catch_def
      triggerAnalysis_begin_def triggerAnalysis_finally_def setTimer_def clearTimer_def
      liveApp_def initialApp_def Let_def fun_eq_iff)



section \<open>The playback controller\<close>

lemma momentum_triggerAnalysis_begin: "momentum (triggerAnalysis_begin a) = 1"
  by (simp add: triggerAnalysis_begin_def clearTimer_def Let_def split: option.splits)

lemma triggerAnalysis_finally_momentum:
  "momentum (triggerAnalysis_finally d a) = momentum a"
  "result (triggerAnalysis_finally d a) = result a"
  by (simp_all add: triggerAnalysis_finally_def setTimer_def Let_def)

lemma triggerAnalysis_resolved:
  "momentum (snd (triggerAnalysis now md prof imgs (Resolved res) a)) = 1"
  "result (snd (triggerAnalysis now md prof imgs (Resolved res) a)) = Some res"
  "fst (triggerAnalysis now md prof imgs (Resolved res) a) = None"
  by (simp_all add: triggerAnalysis_def triggerAnalysis_finally_momentum triggerAnalysis_try_def
      momentum_triggerAnalysis_begin Let_def)

lemma triggerAnalysis_try_momentum:
  "momentum (triggerAnalysis_try now prof imgs res a) = momentum a"
  "result (triggerAnalysis_try now prof imgs res a) = Some res"
  by (simp_all add: triggerAnalysis_try_def Let_def)

text \<open>
  C4 (as amended). Attaching a sequence \<open>S\<close> (the effect that runs when a new
  sequence reaches the controller) makes \<open>S\<close> the active sequence and sets the playback
  index to 0 when \<open>S\<close> is non-empty and to \<open>-1\<close>, the idle display, when \<open>S\<close> is empty. The
  momentum is reset to 1 at the start of the analysis cycle that produces \<open>S\<close>, and the
  rest of that cycle (storing the result and the log record, rescheduling) does not
  write it. Nothing is stated here about the playing state after the arrival.
\<close>

theorem attach_resets_playback:
  "sequence (attach S v) = S \<and>
   currentStepIndex (attach S v) = (if S = [] then - 1 else 0) \<and>
   momentum (triggerAnalysis_begin a) = 1 \<and>
   momentum (triggerAnalysis_try now prof imgs res a) = momentum a \<and>
   result (triggerAnalysis_try now prof imgs res a) = Some res \<and>
   momentum (triggerAnalysis_finally d a) = momentum a \<and>
   result (snd (triggerAnalysis now md prof imgs (Resolved res) a)) = Some res \<and>
   momentum (snd (triggerAnalysis now md prof imgs (Resolved res) a)) = 1"
  by (simp add: attach_def momentum_triggerAnalysis_begin triggerAnalysis_resolved
      triggerAnalysis_try_momentum triggerAnalysis_finally_momentum)

theorem attach_empty_counterexample:
  "currentStepIndex (attach [] (initialView [tapAt 300 700] True)) = - 1"
  by (simp add: attach_def initialView_def)

lemma stepForward_view:
  "snd (stepForward clock s) =
     (snd s)\<lparr>isLocallyPlaying := False,
             currentStepIndex := min (currentStepIndex (snd s) + 1)
                                     (int (length (sequence (snd s))) - 1)\<rparr>"
  by (simp add: stepForward_def Let_def split: option.splits)

lemma stepBackward_view:
  "snd (stepBackward clock s) =
     (snd s)\<lparr>isLocallyPlaying := False,
             currentStepIndex := max (currentStepIndex (snd s) - 1) 0\<rparr>"
  by (simp add: stepBackward_def Let_def split: option.splits)

lemma index_in_range_preserved:
  "index_in_range (initialView seq b)"
  "index_in_range (attach seq v)"
  "index_in_range v \<Longrightarrow> index_in_range (togglePlay v)"
  "index_in_range (snd s) \<Longrightarrow> sequence (snd s) \<noteq> [] \<Longrightarrow>
     index_in_range (snd (stepForward clock s))"
  "index_in_range (snd s) \<Longrightarrow> sequence (snd s) \<noteq> [] \<Longrightarrow>
     index_in_range (snd (stepBackward clock s))"
proof -
  show "index_in_range (initialView seq b)" "index_in_range (attach seq v)"
    by (simp_all add: index_in_range_def initialView_def attach_def)
  show "index_in_range v \<Longrightarrow> index_in_range (togglePlay v)"
    by (simp add: index_in_range_def togglePlay_def)
  show "index_in_range (snd s) \<Longrightarrow> sequence (snd s) \<noteq> [] \<Longrightarrow>
     index_in_range (snd (stepForward clock s))"
    by (cases "sequence (snd s)") (auto simp: index_in_range_def stepForward_view)
  show "index_in_range (snd s) \<Longrightarrow> sequence (snd s) \<noteq> [] \<Longrightarrow>
     index_in_range (snd (stepBackward clock s))"
    by (auto simp: index_in_range_def stepBackward_view)
qed

lemma playLoop_body_view:
  "snd (snd (playLoop_body reads clock s)) = (snd s)\<lparr>isLocallyPlaying := False\<rparr> \<or>
   snd (snd (playLoop_body reads clock s)) = snd s \<or>
   (currentStepIndex (snd s) < int (length (sequence (snd s))) \<and>
    snd (snd (playLoop_body reads clock s))
      = (snd s)\<lparr>currentStepIndex := currentStepIndex (snd s) + 1\<rparr>)"
  by (auto simp add: playLoop_body_def Let_def item_def split: option.splits if_splits)

lemma index_in_range_playLoop_body:
  "index_in_range (snd s) \<Longrightarrow> index_in_range (snd (snd (playLoop_body reads clock s)))"
  using playLoop_body_view [of reads clock s] by (auto simp: index_in_range_def)

text \<open>
  C9. \<open>stepForward\<close> and \<open>stepBackward\<close> each leave the controller paused and move the
  index to \<open>min (index + 1) (length - 1)\<close> and to \<open>max (index - 1) 0\<close>. Stepping forward
  from the last step leaves the index unchanged, and stepping backward from 0 leaves it
  at 0. On a non-empty sequence (the controls are rendered for no other) and an index in
  the range the controller keeps it in (from \<open>-1\<close> to the length), the new index names a
  step of the sequence.
\<close>

theorem step_controls_clamp_index:
  "\<not> isLocallyPlaying (snd (stepForward clock s)) \<and>
   \<not> isLocallyPlaying (snd (stepBackward clock s)) \<and>
   sequence (snd (stepForward clock s)) = sequence (snd s) \<and>
   sequence (snd (stepBackward clock s)) = sequence (snd s) \<and>
   currentStepIndex (snd (stepForward clock s))
     = min (currentStepIndex (snd s) + 1) (int (length (sequence (snd s))) - 1) \<and>
   currentStepIndex (snd (stepBackward clock s)) = max (currentStepIndex (snd s) - 1) 0 \<and>
   (currentStepIndex (snd s) = int (length (sequence (snd s))) - 1 \<longrightarrow>
      currentStepIndex (snd (stepForward clock s)) = currentStepIndex (snd s)) \<and>
   (currentStepIndex (snd s) = 0 \<longrightarrow> currentStepIndex (snd (stepBackward clock s)) = 0) \<and>
   (sequence (snd s) \<noteq> [] \<and> index_in_range (snd s) \<longrightarrow>
      0 \<le> currentStepIndex (snd (stepForward clock s)) \<and>
      currentStepIndex (snd (stepForward clock s)) < int (length (sequence (snd s))) \<and>
      0 \<le> currentStepIndex (snd (stepBackward clock s)) \<and>
      currentStepIndex (snd (stepBackward clock s)) < int (length (sequence (snd s))))"
  by (cases "sequence (snd s)")
    (auto simp: stepForward_view stepBackward_view index_in_range_def)

theorem step_controls_clamp_index_witness:
  "currentStepIndex (snd (stepForward (0, [])
      (liveApp, \<lparr>sequence = [tapAt 1 2, tapAt 3 4, tapAt 5 6], currentStepIndex = 2,
                 isLocallyPlaying = True, swipeSpeed = 1\<rparr>))) = 2 \<and>
   currentStepIndex (snd (stepBackward (0, [])
      (liveApp, \<lparr>sequence = [tapAt 1 2, tapAt 3 4, tapAt 5 6], currentStepIndex = 0,
                 isLocallyPlaying = True, swipeSpeed = 1\<rparr>))) = 0 \<and>
   index_in_range \<lparr>sequence = [tapAt 1 2, tapAt 3 4, tapAt 5 6], currentStepIndex = 3,
                    isLocallyPlaying = False, swipeSpeed = 1\<rparr> \<and>
   currentStepIndex (snd (stepForward (0, [])
      (liveApp, \<lparr>sequence = [tapAt 1 2, tapAt 3 4, tapAt 5 6], currentStepIndex = 3,
                 isLocallyPlaying = False, swipeSpeed = 1\<rparr>))) = 2 \<and>
   currentStepIndex (snd (stepBackward (0, [])
      (liveApp, \<lparr>sequence = [tapAt 1 2, tapAt 3 4, tapAt 5 6], currentStepIndex = 3,
                 isLocallyPlaying = False, swipeSpeed = 1\<rparr>))) = 2"
  using
    step_controls_clamp_index [of "(0, [])" "(liveApp,
      \<lparr>sequence = [tapAt 1 2, tapAt 3 4, tapAt 5 6], currentStepIndex = 2,
       isLocallyPlaying = True, swipeSpeed = 1\<rparr>)"]
    step_controls_clamp_index [of "(0, [])" "(liveApp,
      \<lparr>sequence = [tapAt 1 2, tapAt 3 4, tapAt 5 6], currentStepIndex = 0,
       isLocallyPlaying = True, swipeSpeed = 1\<rparr>)"]
    step_controls_clamp_index [of "(0, [])" "(liveApp,
      \<lparr>sequence = [tapAt 1 2, tapAt 3 4, tapAt 5 6], currentStepIndex = 3,
       isLocallyPlaying = False, swipeSpeed = 1\<rparr>)"]
  by (simp add: index_in_range_def)


section \<open>The phases of one animated step\<close>

lemma animateSingleStep_unfold:
  assumes "isAutoPilot a \<or> mode a = UPLOAD"
  shows "animateSingleStep startTime frames (Some step) a =
     (let c0 = (cursorState a)\<lparr>isVisible := True, precisionMode := False\<rparr>;
          travel = travelPhase (momentum a) step;
          lock = lockPhase step (finalCursor c0 travel);
          act = actionPhase startTime frames (momentum a) step
                  (finalCursor (finalCursor c0 travel) lock);
          evs = SetCursor c0 # travel @ lock @ fst act
                  @ (if snd (snd act) then [Wait (100 / momentum a)] else [])
      in (a\<lparr>momentum := min (momentum a + 1 / 10) 2,
            cursorState := finalCursor (cursorState a) evs\<rparr>, evs, fst (snd act)))"
  using assms by (auto simp: animateSingleStep_def Let_def)

lemma finalCursor_simps:
  "finalCursor c [] = c"
  "finalCursor c (SetCursor c' # evs) = finalCursor c' evs"
  "finalCursor c (Wait w # evs) = finalCursor c evs"
  "finalCursor c (evs @ evs') = finalCursor (finalCursor c evs) evs'"
  by (simp_all add: finalCursor_def)

lemma actionPhase_tap:
  assumes "step_type step = TAP" "coordinates step = Some p"
  shows "actionPhase startTime frames speedFactor step c
     = ([SetCursor (c\<lparr>cx := px p, cy := py p, isDown := True, ctype := ''TAP'',
                      precisionMode := True\<rparr>),
         Wait (100 / speedFactor),
         SetCursor (c\<lparr>cx := px p, cy := py p, isDown := False, ctype := ''TAP'',
                      precisionMode := False\<rparr>)], True, True)"
  using assms by (simp add: actionPhase_def Let_def)

text \<open>
  C6. For a Tap step with a start coordinate, the Act phase sets the pointer to
  exactly the start coordinate with the pressed flag on, waits \<open>100 / momentum\<close>
  milliseconds, and releases the press at the same position, whatever the momentum and
  wherever the pointer was. When the step is animated (the auto-pilot is on or the mode
  is upload), the call ends with that Act phase followed by the recovery wait, and the
  pointer is left at the start coordinate, released.
\<close>

theorem tap_snaps_to_start:
  assumes "step_type step = TAP" and "coordinates step = Some p"
  shows "fst (actionPhase startTime frames speedFactor step c)
           = [SetCursor (c\<lparr>cx := px p, cy := py p, isDown := True, ctype := ''TAP'',
                            precisionMode := True\<rparr>),
              Wait (100 / speedFactor),
              SetCursor (c\<lparr>cx := px p, cy := py p, isDown := False, ctype := ''TAP'',
                            precisionMode := False\<rparr>)] \<and>
         cx (finalCursor c (fst (actionPhase startTime frames speedFactor step c))) = px p \<and>
         cy (finalCursor c (fst (actionPhase startTime frames speedFactor step c))) = py p \<and>
         (isAutoPilot a \<or> mode a = UPLOAD \<longrightarrow>
            (\<exists>pre c'. fst (snd (animateSingleStep startTime frames (Some step) a))
                 = pre @ fst (actionPhase startTime frames (momentum a) step c')
                       @ [Wait (100 / momentum a)]) \<and>
            snd (snd (animateSingleStep startTime frames (Some step) a)) \<and>
            cx (cursorState (fst (animateSingleStep startTime frames (Some step) a))) = px p \<and>
            cy (cursorState (fst (animateSingleStep startTime frames (Some step) a))) = py p \<and>
            \<not> isDown (cursorState (fst (animateSingleStep startTime frames (Some step) a))))"
proof -
  note act = actionPhase_tap [OF assms]
  have animated: "(\<exists>pre c'. fst (snd (animateSingleStep startTime frames (Some step) a))
                 = pre @ fst (actionPhase startTime frames (momentum a) step c')
                       @ [Wait (100 / momentum a)]) \<and>
            snd (snd (animateSingleStep startTime frames (Some step) a)) \<and>
            cx (cursorState (fst (animateSingleStep startTime frames (Some step) a))) = px p \<and>
            cy (cursorState (fst (animateSingleStep startTime frames (Some step) a))) = py p \<and>
            \<not> isDown (cursorState (fst (animateSingleStep startTime frames (Some step) a)))"
    if guard: "isAutoPilot a \<or> mode a = UPLOAD"
  proof -
    define c0 where "c0 = (cursorState a)\<lparr>isVisible := True, precisionMode := False\<rparr>"
    define c2 where "c2 = finalCursor (finalCursor c0 (travelPhase (momentum a) step))
        (lockPhase step (finalCursor c0 (travelPhase (momentum a) step)))"
    have evs: "fst (snd (animateSingleStep startTime frames (Some step) a))
        = (SetCursor c0 # travelPhase (momentum a) step
            @ lockPhase step (finalCursor c0 (travelPhase (momentum a) step)))
          @ fst (actionPhase startTime frames (momentum a) step c2) @ [Wait (100 / momentum a)]"
      by (simp add: animateSingleStep_unfold [OF guard] Let_def act c0_def c2_def)
    have fin: "cursorState (fst (animateSingleStep startTime frames (Some step) a))
        = c2\<lparr>cx := px p, cy := py p, isDown := False, ctype := ''TAP'', precisionMode := False\<rparr>"
      by (simp add: animateSingleStep_unfold [OF guard] Let_def act c0_def c2_def
          finalCursor_simps)
    have res: "snd (snd (animateSingleStep startTime frames (Some step) a))"
      by (simp add: animateSingleStep_unfold [OF guard] Let_def act)
    have ex: "\<exists>pre c'. fst (snd (animateSingleStep startTime frames (Some step) a))
                 = pre @ fst (actionPhase startTime frames (momentum a) step c')
                       @ [Wait (100 / momentum a)]"
      using evs by blast
    from ex fin res show ?thesis
      by simp
  qed
  from act animated show ?thesis
    by (simp add: finalCursor_simps)
qed

theorem tap_snaps_to_start_witness:
  "step_type (tapAt 300 700) = TAP \<and>
   coordinates (tapAt 300 700) = Some \<lparr>px = 300, py = 700\<rparr> \<and> isAutoPilot liveApp \<and>
   cx (cursorState (fst (animateSingleStep 0 [] (Some (tapAt 300 700))
        (liveApp\<lparr>momentum := 2\<rparr>)))) = 300 \<and>
   cy (cursorState (fst (animateSingleStep 0 [] (Some (tapAt 300 700))
        (liveApp\<lparr>momentum := 2\<rparr>)))) = 700 \<and>
   fst (actionPhase 0 [] 2 (tapAt 300 700) (cursorState liveApp))
     = [SetCursor \<lparr>cx = 300, cy = 700, isDown = True, ctype = ''TAP'', isVisible = False,
                   precisionMode = True\<rparr>,
        Wait 50,
        SetCursor \<lparr>cx = 300, cy = 700, isDown = False, ctype = ''TAP'', isVisible = False,
                   precisionMode = False\<rparr>]"
  using tap_snaps_to_start [of "tapAt 300 700" "\<lparr>px = 300, py = 700\<rparr>" 0 "[]" 2
      "cursorState liveApp" "liveApp\<lparr>momentum := 2\<rparr>"]
  by (simp add: tapAt_def liveApp_def initialApp_def)

lemma actionPhase_inert:
  assumes "step_type step \<in> {SWIPE, DRAG, HUMAN_SWIPE}"
    and "coordinates step = None \<or> endCoordinates step = None"
  shows "actionPhase startTime frames speedFactor step c = ([], True, True)"
  using assms by (auto simp: actionPhase_def)

text \<open>A Tap needs no coordinates: without a start point it presses where the pointer
  is.\<close>

lemma actionPhase_tap_in_place:
  assumes "step_type step = TAP" "coordinates step = None"
  shows "fst (actionPhase startTime frames speedFactor step c)
     = [SetCursor (c\<lparr>isDown := True, ctype := ''TAP'', precisionMode := True\<rparr>),
        Wait (100 / speedFactor),
        SetCursor (c\<lparr>isDown := False, ctype := ''TAP'', precisionMode := False\<rparr>)]"
  using assms by (simp add: actionPhase_def Let_def)

lemma travel_lock_not_pressed:
  "SetCursor c \<in> set (travelPhase m step) \<Longrightarrow> \<not> isDown c"
  "SetCursor c \<in> set (lockPhase step (finalCursor c0 (travelPhase m step))) \<Longrightarrow>
     isDown c \<Longrightarrow> isDown c0"
  by (auto simp: travelPhase_def lockPhase_def finalCursor_simps split: option.splits if_splits)

text \<open>
  A Swipe, Drag or HumanSwipe step that lacks its start or its end point has an empty
  Act phase: no cursor state is set, so there is no swipe motion and no press, the
  promise is resolved and control falls through to the recovery wait. The animated step
  is then the Travel and Lock phases to the start point (when there is one) followed
  directly by the recovery wait of \<open>100 / momentum\<close>; no state it sets is pressed unless
  the pointer was pressed before the call, and without a start point the pointer does not
  move. The call has no failing path.
\<close>

lemma inert_step_act_phase_empty:
  assumes "step_type step \<in> {SWIPE, DRAG, HUMAN_SWIPE}"
    and "coordinates step = None \<or> endCoordinates step = None"
  shows "actionPhase startTime frames speedFactor step c = ([], True, True) \<and>
    (isAutoPilot a \<or> mode a = UPLOAD \<longrightarrow>
       fst (snd (animateSingleStep startTime frames (Some step) a))
         = SetCursor ((cursorState a)\<lparr>isVisible := True, precisionMode := False\<rparr>)
           # travelPhase (momentum a) step
           @ lockPhase step (finalCursor ((cursorState a)\<lparr>isVisible := True, precisionMode := False\<rparr>)
                               (travelPhase (momentum a) step))
           @ [Wait (100 / momentum a)] \<and>
       snd (snd (animateSingleStep startTime frames (Some step) a)) \<and>
       (\<forall>c'. SetCursor c' \<in> set (fst (snd (animateSingleStep startTime frames (Some step) a)))
             \<longrightarrow> isDown c' \<longrightarrow> isDown (cursorState a)) \<and>
       (coordinates step = None \<longrightarrow>
          cx (cursorState (fst (animateSingleStep startTime frames (Some step) a)))
            = cx (cursorState a) \<and>
          cy (cursorState (fst (animateSingleStep startTime frames (Some step) a)))
            = cy (cursorState a)))"
proof -
  note act = actionPhase_inert [OF assms]
  define c0 where "c0 = (cursorState a)\<lparr>isVisible := True, precisionMode := False\<rparr>"
  have animated: "fst (snd (animateSingleStep startTime frames (Some step) a))
         = SetCursor c0 # travelPhase (momentum a) step
           @ lockPhase step (finalCursor c0 (travelPhase (momentum a) step))
           @ [Wait (100 / momentum a)]"
    and resolved: "snd (snd (animateSingleStep startTime frames (Some step) a))"
    and final: "cursorState (fst (animateSingleStep startTime frames (Some step) a))
         = finalCursor c0 (travelPhase (momentum a) step
              @ lockPhase step (finalCursor c0 (travelPhase (momentum a) step)))"
    if guard: "isAutoPilot a \<or> mode a = UPLOAD"
    by (simp_all add: animateSingleStep_unfold [OF guard] Let_def act c0_def finalCursor_simps)
  have unpressed: "isDown (cursorState a)"
    if "SetCursor c' \<in> set (SetCursor c0 # travelPhase (momentum a) step
           @ lockPhase step (finalCursor c0 (travelPhase (momentum a) step))
           @ [Wait (100 / momentum a)])" "isDown c'" for c'
    using that travel_lock_not_pressed(1) [where c = c' and m = "momentum a" and step = step]
      travel_lock_not_pressed(2) [where c = c' and m = "momentum a" and step = step and ?c0.0 = c0]
    by (auto simp: c0_def)
  have still: "cx (finalCursor c0 (travelPhase (momentum a) step
              @ lockPhase step (finalCursor c0 (travelPhase (momentum a) step)))) = cx (cursorState a)
      \<and> cy (finalCursor c0 (travelPhase (momentum a) step
              @ lockPhase step (finalCursor c0 (travelPhase (momentum a) step)))) = cy (cursorState a)"
    if "coordinates step = None"
    using that by (simp add: travelPhase_def lockPhase_def finalCursor_simps c0_def)
  show ?thesis
  proof (intro conjI impI allI)
    show "actionPhase startTime frames speedFactor step c = ([], True, True)"
      by (rule act)
  next
    assume guard: "isAutoPilot a \<or> mode a = UPLOAD"
    show "fst (snd (animateSingleStep startTime frames (Some step) a))
         = SetCursor ((cursorState a)\<lparr>isVisible := True, precisionMode := False\<rparr>)
           # travelPhase (momentum a) step
           @ lockPhase step (finalCursor ((cursorState a)\<lparr>isVisible := True, precisionMode := False\<rparr>)
                               (travelPhase (momentum a) step))
           @ [Wait (100 / momentum a)]"
      using animated [OF guard] unfolding c0_def .
    show "snd (snd (animateSingleStep startTime frames (Some step) a))"
      by (rule resolved [OF guard])
    show "isDown (cursorState a)"
      if "SetCursor c' \<in> set (fst (snd (animateSingleStep startTime frames (Some step) a)))"
        and "isDown c'" for c'
      using that unpressed [of c'] unfolding animated [OF guard] by blast
    show "cx (cursorState (fst (animateSingleStep startTime frames (Some step) a)))
            = cx (cursorState a)" if "coordinates step = None"
      using still [OF that] unfolding final [OF guard] by blast
    show "cy (cursorState (fst (animateSingleStep startTime frames (Some step) a)))
            = cy (cursorState a)" if "coordinates step = None"
      using still [OF that] unfolding final [OF guard] by blast
  qed
qed

text \<open>
  The playback loop. With the index read by an updater that React queued, the
  iteration sees index \<open>-1\<close>, finds no step there, switches playing off and leaves the
  loop, whatever the state. With the effect cleaned up during the preview, the iteration
  leaves the loop without advancing the index. Only when the updater ran at once and the
  effect is still in place after the preview does the loop go on to the next index.
\<close>

lemma playLoop_body_queued_read:
  "\<not> updaterRan reads \<Longrightarrow>
     playLoop_body reads clock (a, v) = (False, a, v\<lparr>isLocallyPlaying := False\<rparr>)"
  by (simp add: playLoop_body_def item_def Let_def)

lemma playLoop_body_cleaned_up:
  "\<not> mountedAfter reads \<Longrightarrow>
     \<not> fst (playLoop_body reads clock (a, v)) \<and>
     currentStepIndex (snd (snd (playLoop_body reads clock (a, v)))) = currentStepIndex v"
  by (simp add: playLoop_body_def Let_def split: option.splits)

lemma playLoop_body_goes_on:
  assumes "updaterRan reads" "mountedAfter reads" "playingAfter reads"
    and "item (sequence v) (currentStepIndex v) = Some step"
    and "step_type step \<in> {SWIPE, DRAG, HUMAN_SWIPE}"
    and "coordinates step = None \<or> endCoordinates step = None"
  shows "fst (playLoop_body reads clock (a, v)) \<and>
     snd (snd (playLoop_body reads clock (a, v)))
       = v\<lparr>currentStepIndex := currentStepIndex v + 1\<rparr>"
proof -
  have "currentStepIndex v < int (length (sequence v))"
    using assms(4) by (simp add: item_def split: if_splits)
  moreover have "isAutoPilot a \<Longrightarrow>
      snd (snd (animateSingleStep (fst clock) (snd clock) (Some step) a))"
    by (simp add: animateSingleStep_unfold Let_def actionPhase_inert [OF assms(5,6)])
  ultimately show ?thesis
    using assms(1-4) by (simp add: playLoop_body_def Let_def)
qed

text \<open>
  C7. The first analysis result of a session arrives with the sequence of an inert
  swipe (start (300,700), no end point) followed by a tap, the auto-pilot being on. The
  animation of the inert swipe is as the claim says: Travel and Lock to its start, no
  swipe motion, no press, the recovery wait, and a resolved promise. The playback loop
  does not go on to the next step. The controller mounts, its sequence effect queues the
  index update, and the loop started by the playback effect of the same commit reads
  the index through a queued updater: it previews nothing and leaves the controller
  paused at index 0. And where the updater does run, the preview raises the momentum
  from 1 to 1.1, which re-creates the preview callback and cleans up the playback
  effect, so that the iteration leaves the loop with the index still 0.
\<close>

theorem playLoop_stops_before_next_step:
  "fst (snd (animateSingleStep 0 [] (Some inertSwipe) liveApp))
     = [SetCursor \<lparr>cx = 500, cy = 500, isDown = False, ctype = ''IDLE'', isVisible = True,
                   precisionMode = False\<rparr>,
        SetCursor \<lparr>cx = 300, cy = 700, isDown = False, ctype = ''MOVE'', isVisible = True,
                   precisionMode = False\<rparr>,
        Wait 200,
        SetCursor \<lparr>cx = 300, cy = 700, isDown = False, ctype = ''MOVE'', isVisible = True,
                   precisionMode = True\<rparr>,
        Wait 50, Wait 100] \<and>
   snd (snd (animateSingleStep 0 [] (Some inertSwipe) liveApp)) \<and>
   attach [inertSwipe, tapAt 1 2] (initialView [inertSwipe, tapAt 1 2] True)
     = \<lparr>sequence = [inertSwipe, tapAt 1 2], currentStepIndex = 0, isLocallyPlaying = True,
        swipeSpeed = 1\<rparr> \<and>
   playLoop_body \<lparr>updaterRan = False, mountedAfter = True, playingAfter = True\<rparr> (0, [])
       (liveApp, attach [inertSwipe, tapAt 1 2] (initialView [inertSwipe, tapAt 1 2] True))
     = (False, liveApp,
        \<lparr>sequence = [inertSwipe, tapAt 1 2], currentStepIndex = 0, isLocallyPlaying = False,
         swipeSpeed = 1\<rparr>) \<and>
   momentum liveApp = 1 \<and>
   momentum (fst (animateSingleStep 0 [] (Some inertSwipe) liveApp)) = 11 / 10 \<and>
   playLoop_body \<lparr>updaterRan = True, mountedAfter = False, playingAfter = True\<rparr> (0, [])
       (liveApp, attach [inertSwipe, tapAt 1 2] (initialView [inertSwipe, tapAt 1 2] True))
     = (False, fst (animateSingleStep 0 [] (Some inertSwipe) liveApp),
        \<lparr>sequence = [inertSwipe, tapAt 1 2], currentStepIndex = 0, isLocallyPlaying = True,
         swipeSpeed = 1\<rparr>)"
proof -
  have v: "attach [inertSwipe, tapAt 1 2] (initialView [inertSwipe, tapAt 1 2] True)
     = \<lparr>sequence = [inertSwipe, tapAt 1 2], currentStepIndex = 0, isLocallyPlaying = True,
        swipeSpeed = 1\<rparr>"
    by (simp add: attach_def initialView_def)
  have guard: "isAutoPilot liveApp \<or> mode liveApp = UPLOAD"
    by (simp add: liveApp_def initialApp_def)
  have inert: "actionPhase 0 [] (momentum liveApp) inertSwipe c = ([], True, True)" for c
    by (rule actionPhase_inert) (simp_all add: inertSwipe_def)
  have evs: "fst (snd (animateSingleStep 0 [] (Some inertSwipe) liveApp))
     = [SetCursor \<lparr>cx = 500, cy = 500, isDown = False, ctype = ''IDLE'', isVisible = True,
                   precisionMode = False\<rparr>,
        SetCursor \<lparr>cx = 300, cy = 700, isDown = False, ctype = ''MOVE'', isVisible = True,
                   precisionMode = False\<rparr>,
        Wait 200,
        SetCursor \<lparr>cx = 300, cy = 700, isDown = False, ctype = ''MOVE'', isVisible = True,
                   precisionMode = True\<rparr>,
        Wait 50, Wait 100]"
    by (simp add: animateSingleStep_unfold [OF guard] inert Let_def)
      (simp add: travelPhase_def lockPhase_def finalCursor_simps inertSwipe_def liveApp_def
        initialApp_def)
  have res: "snd (snd (animateSingleStep 0 [] (Some inertSwipe) liveApp))"
    by (simp add: animateSingleStep_unfold [OF guard] inert Let_def)
  have mom: "momentum liveApp = 1"
    "momentum (fst (animateSingleStep 0 [] (Some inertSwipe) liveApp)) = 11 / 10"
    by (simp_all add: animateSingleStep_unfold [OF guard] Let_def)
      (simp_all add: liveApp_def initialApp_def)
  have queued: "playLoop_body \<lparr>updaterRan = False, mountedAfter = True, playingAfter = True\<rparr>
       (0, []) (liveApp, \<lparr>sequence = [inertSwipe, tapAt 1 2], currentStepIndex = 0,
                          isLocallyPlaying = True, swipeSpeed = 1\<rparr>)
     = (False, liveApp,
        \<lparr>sequence = [inertSwipe, tapAt 1 2], currentStepIndex = 0, isLocallyPlaying = False,
         swipeSpeed = 1\<rparr>)"
    by (simp add: playLoop_body_queued_read)
  have cleaned: "playLoop_body \<lparr>updaterRan = True, mountedAfter = False, playingAfter = True\<rparr>
       (0, []) (liveApp, \<lparr>sequence = [inertSwipe, tapAt 1 2], currentStepIndex = 0,
                          isLocallyPlaying = True, swipeSpeed = 1\<rparr>)
     = (False, fst (animateSingleStep 0 [] (Some inertSwipe) liveApp),
        \<lparr>sequence = [inertSwipe, tapAt 1 2], currentStepIndex = 0, isLocallyPlaying = True,
         swipeSpeed = 1\<rparr>)"
    using res guard by (simp add: playLoop_body_def item_def Let_def liveApp_def initialApp_def)
  show ?thesis
    unfolding v using evs res mom queued cleaned by simp
qed

section \<open>Swipe motion\<close>

lemma ease_spec_ease: "ease ty t = spec_ease ty t"
  by (simp add: ease_def spec_ease_def power2_eq_square algebra_simps)

lemma animateSwipe_frames:
  "fst (animateSwipe step p q st d fs)
     = map (\<lambda>t. SetCursor (swipeFrame step p q (swipeProgress st d t)))
         (takeWhile (\<lambda>t. swipeProgress st d t < 1) fs)
       @ (case dropWhile (\<lambda>t. swipeProgress st d t < 1) fs of
            [] \<Rightarrow> []
          | t # _ \<Rightarrow> [SetCursor (swipeFrame step p q (swipeProgress st d t)),
                      SetCursor ((swipeFrame step p q (swipeProgress st d t))\<lparr>isDown := False\<rparr>)])"
  "snd (animateSwipe step p q st d fs) \<longleftrightarrow> (\<exists>t \<in> set fs. \<not> swipeProgress st d t < 1)"
  by (induction fs) (simp_all add: Let_def)

lemma swipeProgress_running:
  "0 < d \<Longrightarrow> swipeProgress st d t < 1 \<longleftrightarrow> t - st < d"
  by (simp add: swipeProgress_def Let_def min_less_iff_disj)

text \<open>
  C2 (as amended). For a Swipe, Drag or HumanSwipe step with both a start and an end
  point, the Act phase presses and then sets, at every animation frame, the position
  \<open>start + (end - start) * ease(min(elapsed / duration, 1))\<close>, where \<open>duration\<close> is the
  step's \<open>durationMs\<close> (500 when \<open>durationMs\<close> is 0) divided by the momentum; for
  \<open>durationMs\<close> of at least 1 that is \<open>max(durationMs, 1) / momentum\<close> and the position is
  the one of the specification. The ease curve of a HumanSwipe is \<open>2t\<^sup>2\<close> below one half
  and \<open>1 - 2(1 - t)\<^sup>2\<close> from there on; Swipe and Drag are linear. The frames run up to the
  first one whose elapsed time reaches the duration, where the press is released. A
  HumanSwipe from (0,0) to (1000,1000) with \<open>durationMs = 1000\<close> at momentum 1 is at
  (125,125) after 250 ms.
\<close>

theorem swipe_position_eased:
  assumes "step_type step \<in> {SWIPE, DRAG, HUMAN_SWIPE}"
    and "coordinates step = Some p" and "endCoordinates step = Some q"
  shows "swipeDuration step m = (if durationMs step = 0 then 500 else durationMs step) / m \<and>
    (1 \<le> durationMs step \<longrightarrow> swipeDuration step m = max (durationMs step) 1 / m) \<and>
    fst (actionPhase startTime frames m step c)
      = SetCursor (c\<lparr>isDown := True, ctype := type_name (step_type step), precisionMode := False\<rparr>)
        # map (\<lambda>t. SetCursor (swipeFrame step p q (swipeProgress startTime (swipeDuration step m) t)))
            (takeWhile (\<lambda>t. swipeProgress startTime (swipeDuration step m) t < 1) frames)
        @ (case dropWhile (\<lambda>t. swipeProgress startTime (swipeDuration step m) t < 1) frames of
             [] \<Rightarrow> []
           | t # _ \<Rightarrow>
               [SetCursor (swipeFrame step p q (swipeProgress startTime (swipeDuration step m) t)),
                SetCursor ((swipeFrame step p q (swipeProgress startTime (swipeDuration step m) t))
                             \<lparr>isDown := False\<rparr>)]) \<and>
    (0 < swipeDuration step m \<longrightarrow>
       (swipeProgress startTime (swipeDuration step m) t < 1
          \<longleftrightarrow> t - startTime < swipeDuration step m)) \<and>
    isDown (swipeFrame step p q (swipeProgress startTime (swipeDuration step m) t)) \<and>
    cx (swipeFrame step p q (swipeProgress startTime (swipeDuration step m) t))
      = px p + (px q - px p)
          * spec_ease (step_type step) (min ((t - startTime) / swipeDuration step m) 1) \<and>
    cy (swipeFrame step p q (swipeProgress startTime (swipeDuration step m) t))
      = py p + (py q - py p)
          * spec_ease (step_type step) (min ((t - startTime) / swipeDuration step m) 1) \<and>
    (1 \<le> durationMs step \<longrightarrow>
       (cx (swipeFrame step p q (swipeProgress startTime (swipeDuration step m) t)),
        cy (swipeFrame step p q (swipeProgress startTime (swipeDuration step m) t)))
       = spec_swipe_position step p q m (t - startTime)) \<and>
    (cx (swipeFrame (swipeStep HUMAN_SWIPE 1000) \<lparr>px = 0, py = 0\<rparr> \<lparr>px = 1000, py = 1000\<rparr>
          (swipeProgress 0 (swipeDuration (swipeStep HUMAN_SWIPE 1000) 1) 250)),
     cy (swipeFrame (swipeStep HUMAN_SWIPE 1000) \<lparr>px = 0, py = 0\<rparr> \<lparr>px = 1000, py = 1000\<rparr>
          (swipeProgress 0 (swipeDuration (swipeStep HUMAN_SWIPE 1000) 1) 250)))
      = (125, 125)"
proof -
  have dur: "swipeDuration step m = (if durationMs step = 0 then 500 else durationMs step) / m"
    by (simp add: swipeDuration_def)
  have dur1: "swipeDuration step m = max (durationMs step) 1 / m" if "1 \<le> durationMs step"
    using that by (simp add: swipeDuration_def)
  have act: "fst (actionPhase startTime frames m step c)
      = SetCursor (c\<lparr>isDown := True, ctype := type_name (step_type step), precisionMode := False\<rparr>)
        # fst (animateSwipe step p q startTime (swipeDuration step m) frames)"
    using assms by (auto simp: actionPhase_def Let_def)
  have running: "swipeProgress startTime (swipeDuration step m) t < 1
          \<longleftrightarrow> t - startTime < swipeDuration step m" if "0 < swipeDuration step m"
    by (rule swipeProgress_running [OF that])
  have pos: "cx (swipeFrame step p q (swipeProgress startTime (swipeDuration step m) t))
      = px p + (px q - px p)
          * spec_ease (step_type step) (min ((t - startTime) / swipeDuration step m) 1)"
    "cy (swipeFrame step p q (swipeProgress startTime (swipeDuration step m) t))
      = py p + (py q - py p)
          * spec_ease (step_type step) (min ((t - startTime) / swipeDuration step m) 1)"
    "isDown (swipeFrame step p q (swipeProgress startTime (swipeDuration step m) t))"
    by (simp_all add: swipeFrame_def swipeProgress_def Let_def ease_spec_ease)
  have spec: "(cx (swipeFrame step p q (swipeProgress startTime (swipeDuration step m) t)),
        cy (swipeFrame step p q (swipeProgress startTime (swipeDuration step m) t)))
       = spec_swipe_position step p q m (t - startTime)" if "1 \<le> durationMs step"
    using pos(1,2) dur1 [OF that] that by (simp add: spec_swipe_position_def Let_def)
  have example: "(cx (swipeFrame (swipeStep HUMAN_SWIPE 1000) \<lparr>px = 0, py = 0\<rparr> \<lparr>px = 1000, py = 1000\<rparr>
          (swipeProgress 0 (swipeDuration (swipeStep HUMAN_SWIPE 1000) 1) 250)),
     cy (swipeFrame (swipeStep HUMAN_SWIPE 1000) \<lparr>px = 0, py = 0\<rparr> \<lparr>px = 1000, py = 1000\<rparr>
          (swipeProgress 0 (swipeDuration (swipeStep HUMAN_SWIPE 1000) 1) 250)))
      = (125, 125)"
    by (simp add: swipeFrame_def swipeProgress_def swipeDuration_def swipeStep_def ease_def
        Let_def)
  show ?thesis
    unfolding act animateSwipe_frames
    using dur dur1 running pos spec example by (intro conjI impI) simp_all
qed

theorem swipe_position_eased_witness:
  "step_type (swipeStep HUMAN_SWIPE 1000) \<in> {SWIPE, DRAG, HUMAN_SWIPE} \<and>
   coordinates (swipeStep HUMAN_SWIPE 1000) = Some \<lparr>px = 0, py = 0\<rparr> \<and>
   endCoordinates (swipeStep HUMAN_SWIPE 1000) = Some \<lparr>px = 1000, py = 1000\<rparr> \<and>
   1 \<le> durationMs (swipeStep HUMAN_SWIPE 1000) \<and>
   swipeDuration (swipeStep HUMAN_SWIPE 1000) 1 = 1000 \<and>
   0 < swipeDuration (swipeStep HUMAN_SWIPE 1000) 1 \<and>
   spec_swipe_position (swipeStep HUMAN_SWIPE 1000) \<lparr>px = 0, py = 0\<rparr> \<lparr>px = 1000, py = 1000\<rparr>
     1 250 = (125, 125) \<and>
   fst (actionPhase 0 [250, 500, 1000] 1 (swipeStep HUMAN_SWIPE 1000) (cursorState liveApp))
     = [SetCursor \<lparr>cx = 500, cy = 500, isDown = True, ctype = ''HUMAN_SWIPE'',
                   isVisible = False, precisionMode = False\<rparr>,
        SetCursor \<lparr>cx = 125, cy = 125, isDown = True, ctype = ''HUMAN_SWIPE'',
                   isVisible = True, precisionMode = False\<rparr>,
        SetCursor \<lparr>cx = 500, cy = 500, isDown = True, ctype = ''HUMAN_SWIPE'',
                   isVisible = True, precisionMode = False\<rparr>,
        SetCursor \<lparr>cx = 1000, cy = 1000, isDown = True, ctype = ''HUMAN_SWIPE'',
                   isVisible = True, precisionMode = False\<rparr>,
        SetCursor \<lparr>cx = 1000, cy = 1000, isDown = False, ctype = ''HUMAN_SWIPE'',
                   isVisible = True, precisionMode = False\<rparr>]"
proof -
  have a: "step_type (swipeStep HUMAN_SWIPE 1000) \<in> {SWIPE, DRAG, HUMAN_SWIPE}"
    "coordinates (swipeStep HUMAN_SWIPE 1000) = Some \<lparr>px = 0, py = 0\<rparr>"
    "endCoordinates (swipeStep HUMAN_SWIPE 1000) = Some \<lparr>px = 1000, py = 1000\<rparr>"
    by (simp_all add: swipeStep_def)
  have d: "durationMs (swipeStep HUMAN_SWIPE 1000) = 1000"
    by (simp add: swipeStep_def)
  have e: "fst (actionPhase 0 [250, 500, 1000] 1 (swipeStep HUMAN_SWIPE 1000) (cursorState liveApp))
     = [SetCursor \<lparr>cx = 500, cy = 500, isDown = True, ctype = ''HUMAN_SWIPE'',
                   isVisible = False, precisionMode = False\<rparr>,
        SetCursor \<lparr>cx = 125, cy = 125, isDown = True, ctype = ''HUMAN_SWIPE'',
                   isVisible = True, precisionMode = False\<rparr>,
        SetCursor \<lparr>cx = 500, cy = 500, isDown = True, ctype = ''HUMAN_SWIPE'',
                   isVisible = True, precisionMode = False\<rparr>,
        SetCursor \<lparr>cx = 1000, cy = 1000, isDown = True, ctype = ''HUMAN_SWIPE'',
                   isVisible = True, precisionMode = False\<rparr>,
        SetCursor \<lparr>cx = 1000, cy = 1000, isDown = False, ctype = ''HUMAN_SWIPE'',
                   isVisible = True, precisionMode = False\<rparr>]"
    by (simp add: actionPhase_def swipeStep_def swipeDuration_def swipeProgress_def
        swipeFrame_def ease_def type_name_def liveApp_def initialApp_def Let_def)
  show ?thesis
    using swipe_position_eased [OF a, of 1 0 "[250, 500, 1000]" "cursorState liveApp" 250] d e
    by (simp add: swipeDuration_def spec_swipe_position_def spec_ease_def swipeStep_def
        Let_def)
qed

theorem swipe_zero_duration_counterexample:
  "durationMs (swipeStep SWIPE 0) = 0 \<and>
   swipeDuration (swipeStep SWIPE 0) 1 = 500 \<and>
   max (durationMs (swipeStep SWIPE 0)) 1 / 1 = (1 :: real) \<and>
   (cx (swipeFrame (swipeStep SWIPE 0) \<lparr>px = 0, py = 0\<rparr> \<lparr>px = 1000, py = 1000\<rparr>
          (swipeProgress 0 (swipeDuration (swipeStep SWIPE 0) 1) 250)),
    cy (swipeFrame (swipeStep SWIPE 0) \<lparr>px = 0, py = 0\<rparr> \<lparr>px = 1000, py = 1000\<rparr>
          (swipeProgress 0 (swipeDuration (swipeStep SWIPE 0) 1) 250))) = (500, 500) \<and>
   spec_swipe_position (swipeStep SWIPE 0) \<lparr>px = 0, py = 0\<rparr> \<lparr>px = 1000, py = 1000\<rparr> 1 250
     = (1000, 1000)"
  by (simp add: swipeStep_def swipeDuration_def swipeProgress_def swipeFrame_def ease_def
      spec_swipe_position_def spec_ease_def Let_def)


section \<open>Momentum\<close>

lemma momentum_animateSingleStep:
  "momentum (fst (animateSingleStep st fs stepOpt a))
     = (case stepOpt of
          None \<Rightarrow> momentum a
        | Some step \<Rightarrow> if \<not> isAutoPilot a \<and> mode a \<noteq> UPLOAD then momentum a
                       else min (momentum a + 1 / 10) 2)"
  "isAutoPilot (fst (animateSingleStep st fs stepOpt a)) = isAutoPilot a"
  by (simp_all add: animateSingleStep_def Let_def split: option.splits)

lemma momentum_triggerAnalysis_catch:
  "triggerAnalysis_catch now md prof parsed e a = Inr (d, a') \<Longrightarrow> momentum a' = momentum a"
  by (auto simp: triggerAnalysis_catch_def setTimer_def Let_def split: sum.splits if_splits)

lemma momentum_triggerAnalysis: "momentum (snd (triggerAnalysis now md prof imgs outcome a)) = 1"
proof (cases outcome)
  case (Resolved res)
  then show ?thesis by (simp add: triggerAnalysis_resolved)
next
  case (Rejected e parsed)
  show ?thesis
  proof (cases "triggerAnalysis_catch now md prof parsed e (triggerAnalysis_begin a)")
    case (Inl err)
    with Rejected show ?thesis
      by (simp add: triggerAnalysis_def triggerAnalysis_finally_momentum
          momentum_triggerAnalysis_begin)
  next
    case (Inr r)
    obtain d a' where r: "r = (d, a')" by (cases r)
    from momentum_triggerAnalysis_catch [OF Inr [unfolded r]]
    have "momentum a' = 1" by (simp add: momentum_triggerAnalysis_begin)
    with Rejected Inr r show ?thesis
      by (simp add: triggerAnalysis_def triggerAnalysis_finally_momentum)
  qed
qed

lemma momentum_other_operations:
  "momentum (stopLiveAnalysis a) = momentum a"
  "momentum (retryTick a) = momentum a"
  by (simp_all add: stopLiveAnalysis_closed retryTick_def)

lemma momentum_step_in_range:
  "momentum_in_range a \<Longrightarrow> momentum_in_range (fst (animateSingleStep st fs stepOpt a))"
  by (auto simp: momentum_in_range_def momentum_animateSingleStep split: option.splits)

lemma momentum_controller_in_range:
  assumes "momentum_in_range a"
  shows "momentum_in_range (fst (stepForward clock (a, v)))"
    and "momentum_in_range (fst (stepBackward clock (a, v)))"
  using assms momentum_step_in_range [OF assms]
  by (auto simp: stepForward_def stepBackward_def Let_def split: option.splits)

lemma momentum_cycle_parts_in_range:
  assumes "momentum_in_range a"
  shows "momentum_in_range (triggerAnalysis_begin a)"
    and "momentum_in_range (triggerAnalysis_try now prof imgs res a)"
    and "momentum_in_range (triggerAnalysis_finally d a)"
  using assms
  by (simp_all add: momentum_in_range_def momentum_triggerAnalysis_begin
      triggerAnalysis_try_momentum triggerAnalysis_finally_momentum)

lemma guard_animateSingleStep:
  "isAutoPilot (fst (animateSingleStep st fs stepOpt a)) = isAutoPilot a"
  "mode (fst (animateSingleStep st fs stepOpt a)) = mode a"
  by (simp_all add: animateSingleStep_def Let_def split: option.splits)

lemma guard_triggerAnalysis_begin:
  "isAutoPilot (triggerAnalysis_begin a) = isAutoPilot a"
  "mode (triggerAnalysis_begin a) = mode a"
  by (simp_all add: triggerAnalysis_begin_def clearTimer_def Let_def split: option.splits)

lemma previewAll_Cons:
  "previewAll (c # calls) a
     = previewAll calls (fst (animateSingleStep (fst c) (fst (snd c)) (Some (snd (snd c))) a))"
  by (simp add: previewAll_def)

lemma previewAll_in_range:
  "momentum_in_range a \<Longrightarrow> momentum_in_range (previewAll calls a)"
proof (induction calls arbitrary: a)
  case Nil
  then show ?case by (simp add: previewAll_def)
next
  case (Cons c calls)
  from Cons.IH [OF momentum_step_in_range [OF Cons.prems]]
  show ?case by (simp add: previewAll_Cons)
qed

lemma previewAll_momentum:
  assumes "isAutoPilot a \<or> mode a = UPLOAD"
  shows "momentum (previewAll calls a)
           = ((\<lambda>m. min (m + 1 / 10) 2) ^^ length calls) (momentum a)"
  using assms
proof (induction calls arbitrary: a)
  case Nil
  then show ?case by (simp add: previewAll_def)
next
  case (Cons c calls)
  define a1 where "a1 = fst (animateSingleStep (fst c) (fst (snd c)) (Some (snd (snd c))) a)"
  have guard: "isAutoPilot a1 \<or> mode a1 = UPLOAD"
    using Cons.prems by (simp add: a1_def guard_animateSingleStep)
  have step: "momentum a1 = min (momentum a + 1 / 10) 2"
    using Cons.prems by (auto simp: a1_def momentum_animateSingleStep)
  from Cons.IH [OF guard] step show ?case
    by (simp add: previewAll_Cons a1_def [symmetric] funpow_Suc_right del: funpow.simps)
qed

lemma capped_increments:
  "m \<le> 2 \<Longrightarrow> ((\<lambda>m. min (m + 1 / 10) 2) ^^ n) m = min (m + (1 / 10) * real n) (2 :: real)"
  by (induction n) (auto simp: min_def field_simps)

text \<open>
  C3 (as amended). Momentum is a scalar in [1, 2]: it starts at 1 and every operation
  that can write it keeps it in that range. It is reset to 1 at the start of every
  analysis cycle (\<open>triggerAnalysis\<close>, whatever the cycle's outcome), which may fall
  between two step animations of the sequence being played, and is raised by 0.1,
  capped at 2, at the start of each step animation that passes the auto-pilot guard.
  Consequently, for step animations run one after another with no analysis cycle
  starting in between, the momentum after them is the map \<open>m \<mapsto> min (m + 0.1) 2\<close>
  applied once per animation; from momentum 1 and in exact arithmetic, that is
  \<open>min (1 + 0.1 * (i + 1)) 2\<close> after the animation of step \<open>i\<close> (zero-based).
\<close>

theorem momentum_ramp:
  "momentum_in_range initialApp \<and>
   (momentum_in_range a \<longrightarrow>
      momentum_in_range (fst (animateSingleStep st fs stepOpt a)) \<and>
      momentum_in_range (triggerAnalysis_begin a) \<and>
      momentum_in_range (triggerAnalysis_try now prof imgs res a) \<and>
      momentum_in_range (triggerAnalysis_finally d a) \<and>
      momentum_in_range (snd (triggerAnalysis now md prof imgs outcome a)) \<and>
      momentum_in_range (stopLiveAnalysis a) \<and>
      momentum_in_range (retryTick a) \<and>
      momentum_in_range (fst (stepForward clock (a, v))) \<and>
      momentum_in_range (fst (stepBackward clock (a, v))) \<and>
      momentum_in_range (previewAll calls a)) \<and>
   momentum (triggerAnalysis_begin a) = 1 \<and>
   momentum (snd (triggerAnalysis now md prof imgs outcome a)) = 1 \<and>
   (isAutoPilot a \<or> mode a = UPLOAD \<longrightarrow>
      momentum (fst (animateSingleStep st fs (Some step) a)) = min (momentum a + 1 / 10) 2 \<and>
      momentum (previewAll calls a)
        = ((\<lambda>m. min (m + 1 / 10) 2) ^^ length calls) (momentum a)) \<and>
   (momentum a = 1 \<and> (isAutoPilot a \<or> mode a = UPLOAD) \<and> length calls = i + 1 \<longrightarrow>
      momentum (previewAll calls a) = min (1 + (1 / 10) * (real i + 1)) 2)"
proof (intro conjI impI)
  show "momentum_in_range initialApp"
    by (simp add: momentum_in_range_def initialApp_def)
next
  assume inv: "momentum_in_range a"
  show "momentum_in_range (fst (animateSingleStep st fs stepOpt a))"
    by (rule momentum_step_in_range [OF inv])
  show "momentum_in_range (triggerAnalysis_begin a)"
    "momentum_in_range (triggerAnalysis_try now prof imgs res a)"
    "momentum_in_range (triggerAnalysis_finally d a)"
    by (rule momentum_cycle_parts_in_range [OF inv])+
  show "momentum_in_range (snd (triggerAnalysis now md prof imgs outcome a))"
    by (simp add: momentum_in_range_def momentum_triggerAnalysis)
  show "momentum_in_range (stopLiveAnalysis a)" "momentum_in_range (retryTick a)"
    using inv by (simp_all add: momentum_in_range_def momentum_other_operations)
  show "momentum_in_range (fst (stepForward clock (a, v)))"
    "momentum_in_range (fst (stepBackward clock (a, v)))"
    by (rule momentum_controller_in_range [OF inv])+
  show "momentum_in_range (previewAll calls a)"
    by (rule previewAll_in_range [OF inv])
next
  show "momentum (triggerAnalysis_begin a) = 1"
    by (rule momentum_triggerAnalysis_begin)
  show "momentum (snd (triggerAnalysis now md prof imgs outcome a)) = 1"
    by (rule momentum_triggerAnalysis)
next
  assume guard: "isAutoPilot a \<or> mode a = UPLOAD"
  then show "momentum (fst (animateSingleStep st fs (Some step) a)) = min (momentum a + 1 / 10) 2"
    by (auto simp: momentum_animateSingleStep)
  show "momentum (previewAll calls a)
        = ((\<lambda>m. min (m + 1 / 10) 2) ^^ length calls) (momentum a)"
    by (rule previewAll_momentum [OF guard])
next
  assume h: "momentum a = 1 \<and> (isAutoPilot a \<or> mode a = UPLOAD) \<and> length calls = i + 1"
  then have guard: "isAutoPilot a \<or> mode a = UPLOAD" by blast
  have "momentum (previewAll calls a) = min (1 + (1 / 10) * real (length calls)) 2"
    using previewAll_momentum [OF guard, of calls] capped_increments [of 1 "length calls"] h
    by simp
  with h show "momentum (previewAll calls a) = min (1 + (1 / 10) * (real i + 1)) 2"
    by (simp add: ac_simps)
qed

theorem momentum_ramp_witness:
  "momentum_in_range liveApp \<and> isAutoPilot liveApp \<and> momentum liveApp = 1 \<and>
   momentum_in_range (fst (animateSingleStep 0 [] (Some (tapAt 300 700)) liveApp)) \<and>
   momentum (fst (animateSingleStep 0 [] (Some (tapAt 300 700)) liveApp)) = 11 / 10 \<and>
   length [(0 :: real, [] :: real list, tapAt 100 100), (0, [], tapAt 200 200)] = 1 + 1 \<and>
   momentum (previewAll [(0, [], tapAt 100 100), (0, [], tapAt 200 200)] liveApp) = 12 / 10"
proof -
  have a: "momentum_in_range liveApp" "isAutoPilot liveApp" "momentum liveApp = 1"
    by (simp_all add: momentum_in_range_def liveApp_def initialApp_def)
  show ?thesis
    using momentum_ramp [where a = liveApp and st = 0 and fs = "[]"
        and stepOpt = "Some (tapAt 300 700)" and step = "tapAt 300 700"
        and calls = "[(0, [], tapAt 100 100), (0, [], tapAt 200 200)]" and i = 1
        and v = "initialView [] True" and now = 0 and md = UPLOAD and prof = sample_profile
        and imgs = "[]" and res = sample_result and d = 3000
        and outcome = "Resolved sample_result" and clock = "(0, [])"] a
    by simp
qed

theorem momentum_reset_mid_sequence_counterexample:
  "(let a1 = fst (animateSingleStep 0 [] (Some (tapAt 100 100)) liveApp);
        a2 = fst (animateSingleStep 0 [] (Some (tapAt 200 200)) a1);
        a3 = triggerAnalysis_begin a2;
        a4 = fst (animateSingleStep 0 [] (Some (tapAt 300 300)) a3)
    in momentum liveApp = 1 \<and> momentum a1 = 11 / 10 \<and> momentum a2 = 12 / 10 \<and>
       momentum a3 = 1 \<and> momentum a4 = 11 / 10) \<and>
   min (1 + (1 / 10) * (2 + 1)) 2 = (13 / 10 :: real)"
proof -
  have a: "isAutoPilot liveApp" "momentum liveApp = 1"
    by (simp_all add: liveApp_def initialApp_def)
  show ?thesis
    by (simp add: Let_def momentum_animateSingleStep momentum_triggerAnalysis_begin
        guard_animateSingleStep guard_triggerAnalysis_begin a)
qed

end
